theory Spec2Isabelle
  imports Complex_Main
begin

section \<open>The tracking engine of motion\_tracker.py and qr\_tracker.py\<close>

text \<open>
  The two scripts share, word for word, the functions \<open>calculate_displacement\<close>,
  \<open>update_position_history\<close>, \<open>is_qr_still\<close> and \<open>is_qr_centered\<close> and the
  block that handles a detected target marker; they differ in how the reference point
  is acquired (key \<open>c\<close> in motion\_tracker.py, the center marker in qr\_tracker.py).

  Numbers: pixel coordinates are integers (\<open>astype(int)\<close>), timestamps, pixel widths
  and the calibration scale are Python floats, modelled here as real numbers. The
  module-level globals become the record \<open>ctx\<close>, passed in and returned. What is
  printed or written on the frame that the properties below speak about becomes a list
  of \<open>event\<close>s; pure drawing (outlines, circles, arrows, prompts) is left out.
\<close>

subsection \<open>Constants\<close>

definition TARGET_WIDTH_INCHES :: real where
  "TARGET_WIDTH_INCHES = 1.5"

definition KNOWN_QR_CODE_WIDTH_CM :: real where
  "KNOWN_QR_CODE_WIDTH_CM = TARGET_WIDTH_INCHES * 2.54"

definition MOVEMENT_THRESHOLD_MM :: real where
  "MOVEMENT_THRESHOLD_MM = 2.5"

definition STILL_TIME_THRESHOLD :: real where
  "STILL_TIME_THRESHOLD = 1.0"

definition TARGET_QR_DATA :: string where
  "TARGET_QR_DATA = ''MRI_HEAD_MOTION_TRACKER_V1.0''"

definition CENTER_QR_DATA :: string where
  "CENTER_QR_DATA = ''MRI_CENTER_LOC''"

subsection \<open>State\<close>

type_synonym pixel = "int \<times> int"

type_synonym sample = "pixel \<times> real"

record ctx =
  center_pixel :: "pixel option"
  is_center_set :: bool
  pixels_per_mm :: "real option"
  position_history :: "sample list"
  last_movement_time :: "real option"

text \<open>The values of the globals when a script starts.\<close>

definition initial_ctx :: ctx where
  "initial_ctx =
     \<lparr>center_pixel = None, is_center_set = False, pixels_per_mm = None,
      position_history = [], last_movement_time = None\<rparr>"

text \<open>Subscripting \<open>None\<close> raises \<open>TypeError\<close> in Python.\<close>

datatype error = TypeError

text \<open>
  One detected marker: the dictionary built by \<open>detect_qr_codes\<close> (its \<open>bbox\<close> entry
  only feeds the drawing), and in motion\_tracker.py the payload, the center and the
  width computed from the single bounding box.
\<close>

record qr_code =
  data :: string
  center :: pixel
  pixel_width :: real

datatype event =
    Status real real real bool bool
  | CenterSetMsg pixel
  | WarningMsg
  | ResetMsg
  | QuitMsg
  | FrameErrorMsg

subsection \<open>calculate\_displacement\<close>

definition calculate_displacement :: "ctx \<Rightarrow> pixel \<Rightarrow> error + (real \<times> real \<times> real)" where
  "calculate_displacement s current_center_pixel =
     (if \<not> is_center_set s then Inr (0, 0, 0)
      else
        (case pixels_per_mm s of
           None \<Rightarrow> Inr (0, 0, 0)
         | Some p \<Rightarrow>
             if p = 0 then Inr (0, 0, 0)
             else
               (case center_pixel s of
                  None \<Rightarrow> Inl TypeError
                | Some c \<Rightarrow>
                    let delta_x_pix = fst current_center_pixel - fst c;
                        delta_y_pix = snd current_center_pixel - snd c;
                        pixel_distance = sqrt (real_of_int (delta_x_pix ^ 2 + delta_y_pix ^ 2));
                        mm_distance = pixel_distance / p;
                        delta_x_mm = real_of_int delta_x_pix / p;
                        delta_y_mm = real_of_int delta_y_pix / p
                    in Inr (mm_distance, delta_x_mm, delta_y_mm))))"

subsection \<open>update\_position\_history\<close>

text \<open>\<open>deque(maxlen=100).append\<close>: a full deque drops its leftmost entry.\<close>

definition deque_append :: "sample list \<Rightarrow> sample \<Rightarrow> sample list" where
  "deque_append h x = (if length h < 100 then h @ [x] else tl h @ [x])"

text \<open>The closing \<open>while\<close> loop: pop from the left while the leftmost sample is too old.\<close>

fun evict :: "real \<Rightarrow> sample list \<Rightarrow> sample list" where
  "evict current_time [] = []"
| "evict current_time ((pos, ts) # rest) =
     (if current_time - ts > 3.0 then evict current_time rest else (pos, ts) # rest)"

definition recent_positions :: "sample list \<Rightarrow> real \<Rightarrow> pixel list" where
  "recent_positions h current_time =
     map fst (filter (\<lambda>(pos, ts). current_time - ts \<le> 0.5) h)"

definition avg_position :: "pixel list \<Rightarrow> real \<times> real" where
  "avg_position recent =
     (real_of_int (sum_list (map fst recent)) / real (length recent),
      real_of_int (sum_list (map snd recent)) / real (length recent))"

definition distance_pixels :: "pixel \<Rightarrow> real \<times> real \<Rightarrow> real" where
  "distance_pixels current_center_pixel avg =
     sqrt ((real_of_int (fst current_center_pixel) - fst avg) ^ 2 +
           (real_of_int (snd current_center_pixel) - snd avg) ^ 2)"

text \<open>
  The three tests of the first line are an \<open>or\<close>, evaluated left to right. In
  \<open>if pixels_per_mm and pixels_per_mm > 0\<close> below, \<open>None\<close> and \<open>0.0\<close> are falsy.
\<close>

definition update_position_history :: "ctx \<Rightarrow> pixel \<Rightarrow> real \<Rightarrow> ctx" where
  "update_position_history s current_center_pixel current_time =
     (if length (position_history s) = 0 then
        s\<lparr>position_history := deque_append (position_history s) (current_center_pixel, current_time),
          last_movement_time := Some current_time\<rparr>
      else
        let recent = recent_positions (position_history s) current_time;
            s1 = (if recent \<noteq> [] then
                    let distance = distance_pixels current_center_pixel (avg_position recent)
                    in (case pixels_per_mm s of
                          None \<Rightarrow> s
                        | Some p \<Rightarrow>
                            if p \<noteq> 0 \<and> p > 0 then
                              let distance_mm = distance / p
                              in if distance_mm > MOVEMENT_THRESHOLD_MM
                                 then s\<lparr>last_movement_time := Some current_time\<rparr>
                                 else s
                            else s)
                  else s)
        in s1\<lparr>position_history :=
                 evict current_time
                   (deque_append (position_history s1) (current_center_pixel, current_time))\<rparr>)"

subsection \<open>is\_qr\_still, is\_qr\_centered\<close>

definition is_qr_still :: "ctx \<Rightarrow> real \<Rightarrow> bool" where
  "is_qr_still s current_time =
     (case last_movement_time s of
        None \<Rightarrow> False
      | Some t \<Rightarrow> current_time - t \<ge> STILL_TIME_THRESHOLD)"

definition is_qr_centered :: "real \<Rightarrow> bool" where
  "is_qr_centered total_distance_mm = (total_distance_mm \<le> MOVEMENT_THRESHOLD_MM)"

subsection \<open>The target marker in a frame\<close>

text \<open>
  The block both scripts run for a detected target marker: calibration from the pixel
  width, the history update, and, once a center is set, the displacement and the status
  written on the frame. \<open>cv2.line\<close> reads \<open>center_pixel\<close> too.
\<close>

definition calibrate :: "ctx \<Rightarrow> qr_code \<Rightarrow> ctx" where
  "calibrate s q =
     (if pixel_width q > 0
      then s\<lparr>pixels_per_mm := Some (pixel_width q / (KNOWN_QR_CODE_WIDTH_CM * 10))\<rparr>
      else s)"

definition track_target :: "ctx \<Rightarrow> qr_code \<Rightarrow> real \<Rightarrow> error + (ctx \<times> event list)" where
  "track_target s q current_time =
     (let current_center_pixel = center q;
          s1 = calibrate s q;
          s2 = update_position_history s1 current_center_pixel current_time
      in if is_center_set s2 then
           (case calculate_displacement s2 current_center_pixel of
              Inl e \<Rightarrow> Inl e
            | Inr (total_dist_mm, dist_x_mm, dist_y_mm) \<Rightarrow>
                (case center_pixel s2 of
                   None \<Rightarrow> Inl TypeError
                 | Some c \<Rightarrow>
                     Inr (s2, [Status total_dist_mm dist_x_mm dist_y_mm
                                 (is_qr_still s2 current_time) (is_qr_centered total_dist_mm)])))
         else Inr (s2, []))"

subsection \<open>motion\_tracker.py: one iteration of the main loop\<close>

text \<open>
  What one iteration reads: whether a frame arrived, the clock at the top of the
  iteration, the detector's answer (\<open>None\<close> when \<open>bbox\<close> is \<open>None\<close>), the key, and
  the clock read again by the \<open>c\<close> handler. Keys are \<open>ord('q') = 113\<close>,
  \<open>ord('c') = 99\<close>, \<open>ord('r') = 114\<close>.
\<close>

record manual_input =
  m_ret :: bool
  m_current_time :: real
  m_detected :: "qr_code option"
  m_key :: nat
  m_key_time :: real

definition found_target_qr :: "qr_code option \<Rightarrow> bool" where
  "found_target_qr d = (case d of None \<Rightarrow> False | Some q \<Rightarrow> data q = TARGET_QR_DATA)"

definition manual_frame :: "ctx \<Rightarrow> manual_input \<Rightarrow> error + (ctx \<times> event list)" where
  "manual_frame s inp =
     (case m_detected inp of
        None \<Rightarrow> Inr (s, [])
      | Some q \<Rightarrow>
          if data q = TARGET_QR_DATA then track_target s q (m_current_time inp)
          else Inr (s, []))"

definition manual_key :: "ctx \<Rightarrow> manual_input \<Rightarrow> ctx \<times> event list \<times> bool" where
  "manual_key s inp =
     (if m_key inp = 113 then (s, [QuitMsg], False)
      else if m_key inp = 99 then
        (case m_detected inp of
           Some q \<Rightarrow>
             if found_target_qr (m_detected inp) then
               (s\<lparr>center_pixel := Some (center q), is_center_set := True,
                  last_movement_time := Some (m_key_time inp), position_history := []\<rparr>,
                [CenterSetMsg (center q)], True)
             else (s, [WarningMsg], True)
         | None \<Rightarrow> (s, [WarningMsg], True))
      else (s, [], True))"

text \<open>The third component says whether the loop goes on.\<close>

definition manual_iteration :: "ctx \<Rightarrow> manual_input \<Rightarrow> error + (ctx \<times> event list \<times> bool)" where
  "manual_iteration s inp =
     (if \<not> m_ret inp then Inr (s, [FrameErrorMsg], False)
      else
        (case manual_frame s inp of
           Inl e \<Rightarrow> Inl e
         | Inr (s1, ev) \<Rightarrow>
             (case manual_key s1 inp of (s2, ev2, go) \<Rightarrow> Inr (s2, ev @ ev2, go))))"

fun manual_loop :: "ctx \<Rightarrow> manual_input list \<Rightarrow> error + (ctx \<times> event list)" where
  "manual_loop s [] = Inr (s, [])"
| "manual_loop s (inp # rest) =
     (case manual_iteration s inp of
        Inl e \<Rightarrow> Inl e
      | Inr (s1, ev, go) \<Rightarrow>
          if go then
            (case manual_loop s1 rest of
               Inl e \<Rightarrow> Inl e
             | Inr (s2, ev2) \<Rightarrow> Inr (s2, ev @ ev2))
          else Inr (s1, ev))"

subsection \<open>qr\_tracker.py: one iteration of the main loop\<close>

text \<open>
  The center marker. The handler reads the clock again (\<open>time.time()\<close>), so each
  marker of the frame comes with the clock value at the moment it is handled.
\<close>

definition center_distance :: "pixel \<Rightarrow> pixel \<Rightarrow> real" where
  "center_distance c r = sqrt (real_of_int ((fst c - fst r) ^ 2 + (snd c - snd r) ^ 2))"

definition reacquire :: "ctx \<Rightarrow> pixel \<Rightarrow> real \<Rightarrow> ctx \<times> event list" where
  "reacquire s c t =
     (s\<lparr>center_pixel := Some c, is_center_set := True,
        last_movement_time := Some t, position_history := []\<rparr>,
      [CenterSetMsg c])"

definition handle_center :: "ctx \<Rightarrow> qr_code \<Rightarrow> real \<Rightarrow> error + (ctx \<times> event list)" where
  "handle_center s q t =
     (if \<not> is_center_set s then Inr (reacquire s (center q) t)
      else
        (case center_pixel s of
           None \<Rightarrow> Inl TypeError
         | Some r \<Rightarrow>
             if is_center_set s \<and> center_distance (center q) r > 10
             then Inr (reacquire s (center q) t)
             else Inr (s, [])))"

definition handle_qr_code :: "ctx \<Rightarrow> real \<Rightarrow> qr_code \<times> real \<Rightarrow> error + (ctx \<times> event list)" where
  "handle_qr_code s current_time qt =
     (case qt of (q, t) \<Rightarrow>
        if data q = CENTER_QR_DATA then handle_center s q t
        else if data q = TARGET_QR_DATA then track_target s q current_time
        else Inr (s, []))"

text \<open>The \<open>for qr_code in qr_codes\<close> loop.\<close>

fun scan_qr_codes :: "ctx \<Rightarrow> real \<Rightarrow> (qr_code \<times> real) list \<Rightarrow> error + (ctx \<times> event list)" where
  "scan_qr_codes s current_time [] = Inr (s, [])"
| "scan_qr_codes s current_time (qt # rest) =
     (case handle_qr_code s current_time qt of
        Inl e \<Rightarrow> Inl e
      | Inr (s1, ev) \<Rightarrow>
          (case scan_qr_codes s1 current_time rest of
             Inl e \<Rightarrow> Inl e
           | Inr (s2, ev2) \<Rightarrow> Inr (s2, ev @ ev2)))"

record dual_input =
  d_ret :: bool
  d_current_time :: real
  d_qr_codes :: "(qr_code \<times> real) list"
  d_key :: nat

definition dual_key :: "ctx \<Rightarrow> dual_input \<Rightarrow> ctx \<times> event list \<times> bool" where
  "dual_key s inp =
     (if d_key inp = 113 then (s, [QuitMsg], False)
      else if d_key inp = 114 then
        (s\<lparr>center_pixel := None, is_center_set := False,
           position_history := [], last_movement_time := None\<rparr>,
         [ResetMsg], True)
      else (s, [], True))"

definition dual_iteration :: "ctx \<Rightarrow> dual_input \<Rightarrow> error + (ctx \<times> event list \<times> bool)" where
  "dual_iteration s inp =
     (if \<not> d_ret inp then Inr (s, [FrameErrorMsg], False)
      else
        (case scan_qr_codes s (d_current_time inp) (d_qr_codes inp) of
           Inl e \<Rightarrow> Inl e
         | Inr (s1, ev) \<Rightarrow>
             (case dual_key s1 inp of (s2, ev2, go) \<Rightarrow> Inr (s2, ev @ ev2, go))))"

fun dual_loop :: "ctx \<Rightarrow> dual_input list \<Rightarrow> error + (ctx \<times> event list)" where
  "dual_loop s [] = Inr (s, [])"
| "dual_loop s (inp # rest) =
     (case dual_iteration s inp of
        Inl e \<Rightarrow> Inl e
      | Inr (s1, ev, go) \<Rightarrow>
          if go then
            (case dual_loop s1 rest of
               Inl e \<Rightarrow> Inl e
             | Inr (s2, ev2) \<Rightarrow> Inr (s2, ev @ ev2))
          else Inr (s1, ev))"

subsection \<open>Predicates on states, frames and events\<close>

text \<open>
  A state in which a set center has a pixel, and one whose scale, if set, is positive;
  both hold at the start and are kept by every iteration (\<open>manual_loop_ok\<close>,
  \<open>dual_loop_ok\<close> below), so neither loop raises \<open>TypeError\<close>.
\<close>

definition wf_ctx :: "ctx \<Rightarrow> bool" where
  "wf_ctx s = (is_center_set s \<longrightarrow> center_pixel s \<noteq> None)"

definition scale_positive :: "ctx \<Rightarrow> bool" where
  "scale_positive s = (case pixels_per_mm s of None \<Rightarrow> True | Some p \<Rightarrow> 0 < p)"

definition ctx_ok :: "ctx \<Rightarrow> bool" where
  "ctx_ok s = (wf_ctx s \<and> scale_positive s)"

fun is_status :: "event \<Rightarrow> bool" where
  "is_status (Status d dx dy still centered) = True"
| "is_status e = False"

definition no_status :: "event list \<Rightarrow> bool" where
  "no_status ev = (filter is_status ev = [])"

text \<open>No marker of the frame is the target marker.\<close>

definition no_target :: "(qr_code \<times> real) list \<Rightarrow> bool" where
  "no_target qs = list_all (\<lambda>qt. data (fst qt) \<noteq> TARGET_QR_DATA) qs"

text \<open>
  Every center marker of the frame lies within 10 pixels of \<open>r\<close>, in Euclidean
  distance written out (not through the guard of the handler).
\<close>

definition center_within :: "pixel \<Rightarrow> (qr_code \<times> real) list \<Rightarrow> bool" where
  "center_within r qs =
     list_all (\<lambda>qt. data (fst qt) = CENTER_QR_DATA \<longrightarrow>
        sqrt (real_of_int ((fst (center (fst qt)) - fst r)\<^sup>2 +
                           (snd (center (fst qt)) - snd r)\<^sup>2)) \<le> 10) qs"

text \<open>The same for every frame of a run in which key \<open>r\<close> is never pressed.\<close>

definition frames_within :: "pixel \<Rightarrow> dual_input list \<Rightarrow> bool" where
  "frames_within r inps =
     list_all (\<lambda>inp. d_key inp \<noteq> 114 \<and> center_within r (d_qr_codes inp)) inps"

text \<open>No center marker of the frame makes \<open>handle_center\<close> overwrite the center.\<close>

definition no_reacquire :: "ctx \<Rightarrow> (qr_code \<times> real) list \<Rightarrow> bool" where
  "no_reacquire s qs =
     list_all (\<lambda>qt. data (fst qt) = CENTER_QR_DATA \<longrightarrow>
        is_center_set s \<and>
        (case center_pixel s of
           None \<Rightarrow> False
         | Some r \<Rightarrow>
             sqrt (real_of_int ((fst (center (fst qt)) - fst r)\<^sup>2 +
                                (snd (center (fst qt)) - snd r)\<^sup>2)) \<le> 10)) qs"

subsection \<open>Predicates on the history\<close>

text \<open>No sample is older than the retention time of 3.0; timestamps never decrease.\<close>

definition within_retention :: "real \<Rightarrow> sample list \<Rightarrow> bool" where
  "within_retention now h = list_all (\<lambda>(pos, ts). now - ts \<le> 3.0) h"

definition timestamps_ordered :: "sample list \<Rightarrow> bool" where
  "timestamps_ordered h = sorted (map snd h)"

subsection \<open>Sample inputs\<close>

text \<open>Markers and loop inputs used to run the definitions on concrete values.\<close>

definition target_q :: qr_code where
  "target_q = \<lparr>data = TARGET_QR_DATA, center = (10, 20), pixel_width = 381\<rparr>"

definition center_q :: qr_code where
  "center_q = \<lparr>data = CENTER_QR_DATA, center = (100, 100), pixel_width = 381\<rparr>"

definition hist_ctx :: ctx where
  "hist_ctx = initial_ctx\<lparr>position_history := [((0, 0), 10)], last_movement_time := Some 10\<rparr>"

text \<open>
  Two stored samples 100 pixels apart, both recent at time 10.2; and the same with the
  first sample too old to be recent.
\<close>

definition two_ctx :: ctx where
  "two_ctx = initial_ctx\<lparr>pixels_per_mm := Some 1,
     position_history := [((0, 0), 10), ((100, 0), 10.1)], last_movement_time := Some 10\<rparr>"

definition old_ctx :: ctx where
  "old_ctx = initial_ctx\<lparr>pixels_per_mm := Some 1,
     position_history := [((0, 0), 9), ((100, 0), 10.1)], last_movement_time := Some 9\<rparr>"

definition ordered_ctx :: ctx where
  "ordered_ctx = initial_ctx\<lparr>position_history := [((0, 0), 1), ((1, 1), 2), ((2, 2), 5)],
     last_movement_time := Some 1\<rparr>"

text \<open>Three updates with a clock that steps back: 10, then 0, then 10.1.\<close>

definition backward_clock_ctx :: ctx where
  "backward_clock_ctx =
     update_position_history
       (update_position_history
          (update_position_history initial_ctx (0, 0) 10) (0, 0) 0) (0, 0) 10.1"

definition near_q :: qr_code where
  "near_q = \<lparr>data = CENTER_QR_DATA, center = (105, 103), pixel_width = 381\<rparr>"

definition far_q :: qr_code where
  "far_q = \<lparr>data = CENTER_QR_DATA, center = (120, 130), pixel_width = 381\<rparr>"

text \<open>A center marker straight above the stored center, 100 pixels away.\<close>

definition above_q :: qr_code where
  "above_q = \<lparr>data = CENTER_QR_DATA, center = (100, 200), pixel_width = 381\<rparr>"

definition ref_ctx :: ctx where
  "ref_ctx = initial_ctx\<lparr>center_pixel := Some (100, 100), is_center_set := True,
     position_history := [((10, 20), 1)], last_movement_time := Some 1\<rparr>"

definition near_frames :: "dual_input list" where
  "near_frames =
     [\<lparr>d_ret = True, d_current_time = 2, d_qr_codes = [(center_q, 2)], d_key = 255\<rparr>,
      \<lparr>d_ret = True, d_current_time = 3, d_qr_codes = [(near_q, 3)], d_key = 255\<rparr>]"

text \<open>The state after a first frame that shows the target marker only.\<close>

definition seen_ctx :: ctx where
  "seen_ctx = initial_ctx\<lparr>pixels_per_mm := Some 10, position_history := [((10, 20), 1)],
     last_movement_time := Some 1\<rparr>"

section \<open>Properties\<close>

subsection \<open>What the history update leaves alone\<close>

lemma update_position_history_frame [simp]:
  "pixels_per_mm (update_position_history s c t) = pixels_per_mm s"
  "center_pixel (update_position_history s c t) = center_pixel s"
  "is_center_set (update_position_history s c t) = is_center_set s"
  by (simp_all add: update_position_history_def Let_def split: option.splits)

lemma track_target_state:
  "track_target s q t = Inr (s', ev) \<Longrightarrow>
     s' = update_position_history (calibrate s q) (center q) t"
  by (auto simp: track_target_def Let_def split: if_splits sum.splits option.splits)

lemma calibrate_frame [simp]:
  "center_pixel (calibrate s q) = center_pixel s"
  "is_center_set (calibrate s q) = is_center_set s"
  "position_history (calibrate s q) = position_history s"
  "last_movement_time (calibrate s q) = last_movement_time s"
  by (simp_all add: calibrate_def)

lemma width_mm: "KNOWN_QR_CODE_WIDTH_CM * 10 = 38.1"
  by (simp add: KNOWN_QR_CODE_WIDTH_CM_def TARGET_WIDTH_INCHES_def)

subsection \<open>Neither loop raises, and the scale stays positive\<close>

lemma track_target_total:
  "wf_ctx s \<Longrightarrow> \<exists>ev. track_target s q t =
     Inr (update_position_history (calibrate s q) (center q) t, ev)"
  by (auto simp: wf_ctx_def track_target_def calculate_displacement_def Let_def
      split: sum.splits option.splits)

lemma handle_center_total:
  "wf_ctx s \<Longrightarrow> \<exists>s' ev. handle_center s q t = Inr (s', ev) \<and> wf_ctx s' \<and>
     pixels_per_mm s' = pixels_per_mm s \<and> no_status ev"
  by (auto simp: handle_center_def reacquire_def wf_ctx_def no_status_def)

lemma calibrate_scale_positive: "scale_positive s \<Longrightarrow> scale_positive (calibrate s q)"
  by (simp add: scale_positive_def calibrate_def width_mm)

lemma update_scale_positive [simp]:
  "scale_positive (update_position_history s c t) = scale_positive s"
  by (simp add: scale_positive_def)

lemma update_wf [simp]: "wf_ctx (update_position_history s c t) = wf_ctx s"
  by (simp add: wf_ctx_def)

lemma calibrate_wf [simp]: "wf_ctx (calibrate s q) = wf_ctx s"
  by (simp add: wf_ctx_def)

lemma scale_positive_track_target:
  "scale_positive s \<Longrightarrow> track_target s q t = Inr (s', ev) \<Longrightarrow> scale_positive s'"
  by (auto dest!: track_target_state simp: calibrate_scale_positive)

lemma track_target_ok:
  "ctx_ok s \<Longrightarrow> \<exists>s' ev. track_target s q t = Inr (s', ev) \<and> ctx_ok s'"
  using track_target_total [of s q t]
  by (auto simp: ctx_ok_def calibrate_scale_positive)

lemma manual_iteration_ok:
  assumes "ctx_ok s"
  shows "\<exists>s' ev go. manual_iteration s mi = Inr (s', ev, go) \<and> ctx_ok s'"
proof -
  have "\<exists>s1 ev1. manual_frame s mi = Inr (s1, ev1) \<and> ctx_ok s1"
    using assms track_target_ok [OF assms]
    by (auto simp: manual_frame_def split: option.splits)
  then obtain s1 ev1 where f: "manual_frame s mi = Inr (s1, ev1)" and k: "ctx_ok s1"
    by blast
  obtain s2 ev2 go where m: "manual_key s1 mi = (s2, ev2, go)"
    by (cases "manual_key s1 mi") auto
  with k have "ctx_ok s2"
    by (auto simp: manual_key_def ctx_ok_def wf_ctx_def scale_positive_def
        split: if_splits option.splits)
  with f m show ?thesis
    by (cases "m_ret mi") (auto simp: manual_iteration_def assms)
qed

lemma manual_iteration_total:
  assumes "wf_ctx s"
  shows "\<exists>s' ev go. manual_iteration s mi = Inr (s', ev, go)"
proof -
  have "\<exists>s1 ev1. manual_frame s mi = Inr (s1, ev1)"
  proof (cases "m_detected mi")
    case None
    then show ?thesis by (simp add: manual_frame_def)
  next
    case (Some q)
    from track_target_total [OF assms, of q "m_current_time mi"] obtain ev1 where
      "track_target s q (m_current_time mi) =
         Inr (update_position_history (calibrate s q) (center q) (m_current_time mi), ev1)"
      by blast
    with Some show ?thesis by (simp add: manual_frame_def)
  qed
  then obtain s1 ev1 where f: "manual_frame s mi = Inr (s1, ev1)"
    by blast
  obtain s2 ev2 go where "manual_key s1 mi = (s2, ev2, go)"
    by (cases "manual_key s1 mi") auto
  with f show ?thesis
    by (cases "m_ret mi") (auto simp: manual_iteration_def)
qed

lemma manual_loop_ok:
  "ctx_ok s \<Longrightarrow> \<exists>s' ev. manual_loop s inps = Inr (s', ev) \<and> ctx_ok s'"
proof (induction inps arbitrary: s)
  case Nil
  then show ?case by simp
next
  case (Cons inp inps)
  from manual_iteration_ok [OF Cons.prems, of inp] obtain s1 ev1 go where
    it: "manual_iteration s inp = Inr (s1, ev1, go)" and k: "ctx_ok s1"
    by blast
  show ?case
  proof (cases go)
    case False
    with it k show ?thesis by simp
  next
    case True
    from Cons.IH [OF k] obtain s2 ev2 where "manual_loop s1 inps = Inr (s2, ev2)" "ctx_ok s2"
      by blast
    with it True show ?thesis by simp
  qed
qed

lemma handle_qr_code_ok:
  assumes "ctx_ok s"
  shows "\<exists>s' ev. handle_qr_code s now (q, t) = Inr (s', ev) \<and> ctx_ok s'"
proof -
  from assms have wf: "wf_ctx s" by (simp add: ctx_ok_def)
  from handle_center_total [OF wf, of q t] assms
  have "\<exists>s' ev. handle_center s q t = Inr (s', ev) \<and> ctx_ok s'"
    by (auto simp: ctx_ok_def scale_positive_def)
  with track_target_ok [OF assms, of q now] assms show ?thesis
    by (auto simp: handle_qr_code_def)
qed

lemma scan_qr_codes_ok:
  "ctx_ok s \<Longrightarrow> \<exists>s' ev. scan_qr_codes s now qs = Inr (s', ev) \<and> ctx_ok s'"
proof (induction qs arbitrary: s)
  case Nil
  then show ?case by simp
next
  case (Cons qt qs)
  obtain q t where qt: "qt = (q, t)" by (cases qt)
  from handle_qr_code_ok [OF Cons.prems, of now q t] obtain s1 ev1 where
    h: "handle_qr_code s now (q, t) = Inr (s1, ev1)" and k: "ctx_ok s1"
    by blast
  from Cons.IH [OF k] obtain s2 ev2 where "scan_qr_codes s1 now qs = Inr (s2, ev2)" "ctx_ok s2"
    by blast
  with h qt show ?case by simp
qed

lemma dual_iteration_ok:
  assumes "ctx_ok s"
  shows "\<exists>s' ev go. dual_iteration s inp = Inr (s', ev, go) \<and> ctx_ok s'"
proof -
  from scan_qr_codes_ok [OF assms, of "d_current_time inp" "d_qr_codes inp"] obtain s1 ev1 where
    sc: "scan_qr_codes s (d_current_time inp) (d_qr_codes inp) = Inr (s1, ev1)" and k: "ctx_ok s1"
    by blast
  obtain s2 ev2 go where m: "dual_key s1 inp = (s2, ev2, go)"
    by (cases "dual_key s1 inp") auto
  with k have "ctx_ok s2"
    by (auto simp: dual_key_def ctx_ok_def wf_ctx_def scale_positive_def split: if_splits)
  with sc m show ?thesis
    by (cases "d_ret inp") (auto simp: dual_iteration_def assms)
qed

lemma dual_loop_ok:
  "ctx_ok s \<Longrightarrow> \<exists>s' ev. dual_loop s inps = Inr (s', ev) \<and> ctx_ok s'"
proof (induction inps arbitrary: s)
  case Nil
  then show ?case by simp
next
  case (Cons inp inps)
  from dual_iteration_ok [OF Cons.prems, of inp] obtain s1 ev1 go where
    it: "dual_iteration s inp = Inr (s1, ev1, go)" and k: "ctx_ok s1"
    by blast
  show ?case
  proof (cases go)
    case False
    with it k show ?thesis by simp
  next
    case True
    from Cons.IH [OF k] obtain s2 ev2 where "dual_loop s1 inps = Inr (s2, ev2)" "ctx_ok s2"
      by blast
    with it True show ?thesis by simp
  qed
qed

lemma initial_ctx_ok: "ctx_ok initial_ctx"
  by (simp add: ctx_ok_def wf_ctx_def scale_positive_def initial_ctx_def)

subsection \<open>Displacement\<close>

lemma sqrt_scaled:
  fixes a b p :: real
  assumes "0 < p"
  shows "sqrt ((a / p)\<^sup>2 + (b / p)\<^sup>2) = sqrt (a\<^sup>2 + b\<^sup>2) / p"
proof -
  have "(a / p)\<^sup>2 + (b / p)\<^sup>2 = (a\<^sup>2 + b\<^sup>2) / p\<^sup>2"
    by (simp add: power_divide add_divide_distrib)
  then have "sqrt ((a / p)\<^sup>2 + (b / p)\<^sup>2) = sqrt (a\<^sup>2 + b\<^sup>2) / sqrt (p\<^sup>2)"
    by (simp add: real_sqrt_divide)
  with assms show ?thesis by simp
qed

text \<open>
  C1. \<open>calculate_displacement\<close> returns \<open>(0, 0, 0)\<close> when the center is not set, or the
  scale is unset, or the scale is zero. With a center \<open>(rx, ry)\<close> and a positive scale
  \<open>p\<close> it returns \<open>(sqrt (dx\<^sup>2 + dy\<^sup>2), dx, dy)\<close> where \<open>dx = (cx - rx) / p\<close> and
  \<open>dy = (cy - ry) / p\<close>. The function reads the globals and assigns none of them, so its
  model returns the triple only. A scale, once set, is positive
  (\<open>scale_positive_track_target\<close> below), so the two cases cover every state the
  scripts reach.
\<close>

theorem calculate_displacement_spec:
  "(\<not> is_center_set s \<or> pixels_per_mm s = None \<or> pixels_per_mm s = Some 0
      \<longrightarrow> calculate_displacement s (cx, cy) = Inr (0, 0, 0)) \<and>
   (is_center_set s \<and> center_pixel s = Some (rx, ry) \<and> pixels_per_mm s = Some p \<and> 0 < p
      \<longrightarrow> calculate_displacement s (cx, cy) =
            Inr (sqrt ((real_of_int (cx - rx) / p)\<^sup>2 + (real_of_int (cy - ry) / p)\<^sup>2),
                 real_of_int (cx - rx) / p, real_of_int (cy - ry) / p))"
  by (simp add: calculate_displacement_def sqrt_scaled)

theorem calculate_displacement_spec_witness:
  "calculate_displacement initial_ctx (3, 4) = Inr (0, 0, 0) \<and>
   calculate_displacement
     (initial_ctx\<lparr>center_pixel := Some (0, 0), is_center_set := True, pixels_per_mm := Some 2\<rparr>) (6, 8)
     = Inr (5, 3, 4)"
proof -
  have "sqrt ((real_of_int (6 - 0) / 2)\<^sup>2 + (real_of_int (8 - 0) / 2)\<^sup>2) = sqrt (5\<^sup>2)"
    by simp
  then have r: "sqrt ((real_of_int (6 - 0) / 2)\<^sup>2 + (real_of_int (8 - 0) / 2)\<^sup>2) = 5"
    by (simp only: real_sqrt_abs abs_numeral)
  show ?thesis
    using calculate_displacement_spec [of initial_ctx 3 4 0 0 1]
      calculate_displacement_spec
        [of "initial_ctx\<lparr>center_pixel := Some (0, 0), is_center_set := True, pixels_per_mm := Some 2\<rparr>"
            6 8 0 0 2] r
    by (simp add: initial_ctx_def)
qed

subsection \<open>Still and centered\<close>

text \<open>
  C3. \<open>is_qr_still\<close> holds exactly when a last movement time is recorded and at least
  1.0 has passed since (never when none is recorded); \<open>is_qr_centered\<close> holds exactly
  when the total displacement is at most 2.5.
\<close>

theorem stability_classifier_spec:
  "(is_qr_still s now \<longleftrightarrow> (\<exists>t. last_movement_time s = Some t \<and> now - t \<ge> 1.0)) \<and>
   (last_movement_time s = None \<longrightarrow> \<not> is_qr_still s now) \<and>
   (is_qr_centered d \<longleftrightarrow> d \<le> 2.5)"
  by (simp add: is_qr_still_def is_qr_centered_def STILL_TIME_THRESHOLD_def
      MOVEMENT_THRESHOLD_MM_def split: option.splits)

theorem stability_classifier_spec_witness:
  "\<not> is_qr_still initial_ctx 5 \<and>
   is_qr_still (initial_ctx\<lparr>last_movement_time := Some 4\<rparr>) 5 \<and>
   \<not> is_qr_still (initial_ctx\<lparr>last_movement_time := Some 4.5\<rparr>) 5 \<and>
   is_qr_centered 2.5 \<and> \<not> is_qr_centered 2.6"
  using stability_classifier_spec [of initial_ctx 5 "2.5"]
    stability_classifier_spec [of "initial_ctx\<lparr>last_movement_time := Some 4\<rparr>" 5 "2.6"]
    stability_classifier_spec [of "initial_ctx\<lparr>last_movement_time := Some 4.5\<rparr>" 5 "2.6"]
  by (simp add: initial_ctx_def)

subsection \<open>The position history\<close>

text \<open>
  C9. When the history is empty, \<open>update_position_history\<close> leaves exactly the new
  sample in it and records \<open>now\<close> as the last movement time, so the target counts as
  still only from \<open>now + 1.0\<close> on.
\<close>

theorem first_sample_spec:
  "position_history s = [] \<longrightarrow>
     position_history (update_position_history s cur now) = [(cur, now)] \<and>
     last_movement_time (update_position_history s cur now) = Some now \<and>
     (\<forall>t. is_qr_still (update_position_history s cur now) t \<longleftrightarrow> t - now \<ge> 1.0)"
  by (simp add: update_position_history_def deque_append_def is_qr_still_def
      STILL_TIME_THRESHOLD_def)

theorem first_sample_spec_witness:
  "position_history (update_position_history initial_ctx (7, 9) 2) = [((7, 9), 2)] \<and>
   last_movement_time (update_position_history initial_ctx (7, 9) 2) = Some 2 \<and>
   \<not> is_qr_still (update_position_history initial_ctx (7, 9) 2) 2.9 \<and>
   is_qr_still (update_position_history initial_ctx (7, 9) 2) 3"
  using first_sample_spec [of initial_ctx "(7, 9)" 2]
  by (simp add: initial_ctx_def)

lemma evict_snoc_last:
  "evict now (h @ [(c, now)]) \<noteq> [] \<and> last (evict now (h @ [(c, now)])) = (c, now)"
  by (induction h) (auto split: if_splits)

lemma deque_append_ordered:
  "sorted (map snd h) \<Longrightarrow>
     \<exists>h'. deque_append h x = h' @ [x] \<and> sorted (map snd h') \<and> set h' \<subseteq> set h"
  by (cases h) (auto simp: deque_append_def)

lemma deque_append_snoc: "\<exists>h'. deque_append h x = h' @ [x]"
  by (simp add: deque_append_def)

lemma history_after_update:
  "position_history s \<noteq> [] \<Longrightarrow>
   position_history (update_position_history s cur now) =
     evict now (deque_append (position_history s) (cur, now))"
  by (simp add: update_position_history_def Let_def split: option.splits)

lemma evict_drop: "\<exists>k. evict now h = drop k h"
proof (induction h)
  case Nil
  then show ?case by simp
next
  case (Cons x h)
  obtain pos ts where x: "x = (pos, ts)" by (cases x)
  from Cons obtain k where k: "evict now h = drop k h" by blast
  show ?case
  proof (cases "now - ts > 3.0")
    case True
    with k x have "evict now (x # h) = drop (Suc k) (x # h)" by simp
    then show ?thesis by blast
  next
    case False
    with x have "evict now (x # h) = drop 0 (x # h)" by simp
    then show ?thesis by blast
  qed
qed

lemma deque_append_drop: "\<exists>k. deque_append h x = drop k (h @ [x])"
proof (cases "length h < 100")
  case True
  then have "deque_append h x = drop 0 (h @ [x])" by (simp add: deque_append_def)
  then show ?thesis by blast
next
  case False
  then have "h \<noteq> []" by auto
  with False have "deque_append h x = drop 1 (h @ [x])"
    by (cases h) (simp_all add: deque_append_def)
  then show ?thesis by blast
qed

lemma history_drop:
  assumes "position_history s \<noteq> []"
  shows "\<exists>k. position_history (update_position_history s cur now) =
           drop k (position_history s @ [(cur, now)])"
proof -
  obtain j where j: "deque_append (position_history s) (cur, now) =
      drop j (position_history s @ [(cur, now)])"
    using deque_append_drop by blast
  obtain k where "evict now (deque_append (position_history s) (cur, now)) =
      drop k (deque_append (position_history s) (cur, now))"
    using evict_drop by blast
  with j have "evict now (deque_append (position_history s) (cur, now)) =
      drop k (drop j (position_history s @ [(cur, now)]))"
    by (simp only:)
  then have "evict now (deque_append (position_history s) (cur, now)) =
      drop (k + j) (position_history s @ [(cur, now)])"
    by (simp only: drop_drop)
  with history_after_update [OF assms, of cur now]
  have "position_history (update_position_history s cur now) =
      drop (k + j) (position_history s @ [(cur, now)])"
    by (rule trans)
  then show ?thesis by blast
qed

text \<open>
  C2. Let the history be non-empty, let \<open>recent\<close> be the positions of the stored
  samples whose timestamp \<open>ts\<close> has \<open>now - ts \<le> 0.5\<close>, non-empty, with
  \<open>(mean_x, mean_y)\<close> the sums of their coordinates divided by their number, and let
  the scale \<open>p\<close> be positive. Then the update sets the last movement time to \<open>now\<close>
  when \<open>sqrt ((cx - mean_x)\<^sup>2 + (cy - mean_y)\<^sup>2) / p > 2.5\<close> and leaves it as it was
  otherwise. With no scale the last movement time stays, and the history is the old
  one with the new sample appended, less some entries dropped from the front: it is
  not empty and the new sample is its last entry.
\<close>

theorem movement_detector_spec:
  "(position_history s \<noteq> [] \<and>
    recent = map fst (filter (\<lambda>(pos, ts). now - ts \<le> 0.5) (position_history s)) \<and>
    recent \<noteq> [] \<and>
    mean_x = real_of_int (sum_list (map fst recent)) / real (length recent) \<and>
    mean_y = real_of_int (sum_list (map snd recent)) / real (length recent) \<and>
    pixels_per_mm s = Some p \<and> 0 < p \<longrightarrow>
      last_movement_time (update_position_history s (cx, cy) now) =
        (if sqrt ((real_of_int cx - mean_x)\<^sup>2 + (real_of_int cy - mean_y)\<^sup>2) / p > 2.5
         then Some now else last_movement_time s)) \<and>
   (position_history s \<noteq> [] \<and> pixels_per_mm s = None \<longrightarrow>
      last_movement_time (update_position_history s (cx, cy) now) = last_movement_time s \<and>
      (\<exists>k. position_history (update_position_history s (cx, cy) now) =
             drop k (position_history s @ [((cx, cy), now)])) \<and>
      position_history (update_position_history s (cx, cy) now) \<noteq> [] \<and>
      last (position_history (update_position_history s (cx, cy) now)) = ((cx, cy), now))"
proof -
  have p1: "position_history s \<noteq> [] \<and>
    recent = map fst (filter (\<lambda>(pos, ts). now - ts \<le> 0.5) (position_history s)) \<and>
    recent \<noteq> [] \<and>
    mean_x = real_of_int (sum_list (map fst recent)) / real (length recent) \<and>
    mean_y = real_of_int (sum_list (map snd recent)) / real (length recent) \<and>
    pixels_per_mm s = Some p \<and> 0 < p \<longrightarrow>
      last_movement_time (update_position_history s (cx, cy) now) =
        (if sqrt ((real_of_int cx - mean_x)\<^sup>2 + (real_of_int cy - mean_y)\<^sup>2) / p > 2.5
         then Some now else last_movement_time s)"
  proof
    assume a: "position_history s \<noteq> [] \<and>
      recent = map fst (filter (\<lambda>(pos, ts). now - ts \<le> 0.5) (position_history s)) \<and>
      recent \<noteq> [] \<and>
      mean_x = real_of_int (sum_list (map fst recent)) / real (length recent) \<and>
      mean_y = real_of_int (sum_list (map snd recent)) / real (length recent) \<and>
      pixels_per_mm s = Some p \<and> 0 < p"
    then have "recent = map fst (filter (\<lambda>(pos, ts). now - ts \<le> 0.5) (position_history s))"
      by blast
    then have r: "recent_positions (position_history s) now = recent"
      by (simp only: recent_positions_def)
    from a have
      "mean_x = real_of_int (sum_list (map fst recent)) / real (length recent)"
      "mean_y = real_of_int (sum_list (map snd recent)) / real (length recent)"
      by blast+
    then have m: "avg_position recent = (mean_x, mean_y)"
      by (simp only: avg_position_def)
    have d: "distance_pixels (cx, cy) (mean_x, mean_y) =
        sqrt ((real_of_int cx - mean_x)\<^sup>2 + (real_of_int cy - mean_y)\<^sup>2)"
      by (simp add: distance_pixels_def)
    from a have k: "position_history s \<noteq> []" "recent \<noteq> []" "pixels_per_mm s = Some p" "0 < p"
      by blast+
    from k r m d
    show "last_movement_time (update_position_history s (cx, cy) now) =
        (if sqrt ((real_of_int cx - mean_x)\<^sup>2 + (real_of_int cy - mean_y)\<^sup>2) / p > 2.5
         then Some now else last_movement_time s)"
      by (simp add: update_position_history_def Let_def MOVEMENT_THRESHOLD_MM_def)
  qed
  have p2: "position_history s \<noteq> [] \<and> pixels_per_mm s = None \<longrightarrow>
      last_movement_time (update_position_history s (cx, cy) now) = last_movement_time s \<and>
      (\<exists>k. position_history (update_position_history s (cx, cy) now) =
             drop k (position_history s @ [((cx, cy), now)])) \<and>
      position_history (update_position_history s (cx, cy) now) \<noteq> [] \<and>
      last (position_history (update_position_history s (cx, cy) now)) = ((cx, cy), now)"
  proof
    assume a: "position_history s \<noteq> [] \<and> pixels_per_mm s = None"
    then have l: "last_movement_time (update_position_history s (cx, cy) now) = last_movement_time s"
      by (simp add: update_position_history_def Let_def)
    from a have h: "position_history (update_position_history s (cx, cy) now) =
        evict now (deque_append (position_history s) ((cx, cy), now))"
      by (simp add: history_after_update)
    obtain h' where "deque_append (position_history s) ((cx, cy), now) = h' @ [((cx, cy), now)]"
      using deque_append_snoc by blast
    with h evict_snoc_last [of now h' "(cx, cy)"]
    have e: "position_history (update_position_history s (cx, cy) now) \<noteq> []"
      "last (position_history (update_position_history s (cx, cy) now)) = ((cx, cy), now)"
      by simp_all
    from a history_drop [of s "(cx, cy)" now]
    have "\<exists>k. position_history (update_position_history s (cx, cy) now) =
             drop k (position_history s @ [((cx, cy), now)])"
      by blast
    with l e
    show "last_movement_time (update_position_history s (cx, cy) now) = last_movement_time s \<and>
      (\<exists>k. position_history (update_position_history s (cx, cy) now) =
             drop k (position_history s @ [((cx, cy), now)])) \<and>
      position_history (update_position_history s (cx, cy) now) \<noteq> [] \<and>
      last (position_history (update_position_history s (cx, cy) now)) = ((cx, cy), now)"
      by blast
  qed
  from p1 p2 show ?thesis by (intro conjI)
qed

lemma sqrt_25: "sqrt 25 = 5"
  using real_sqrt_abs [of 5] by simp

theorem movement_detector_spec_witness:
  "last_movement_time (update_position_history two_ctx (50, 0) 10.2) = Some 10 \<and>
   last_movement_time (update_position_history two_ctx (53, 4) 10.2) = Some 10.2 \<and>
   last_movement_time (update_position_history (two_ctx\<lparr>pixels_per_mm := Some 2\<rparr>) (53, 4) 10.2)
     = Some 10 \<and>
   last_movement_time (update_position_history old_ctx (100, 0) 10.2) = Some 9 \<and>
   last_movement_time (update_position_history old_ctx (50, 0) 10.2) = Some 10.2 \<and>
   last_movement_time (update_position_history hist_ctx (3, 4) 10.2) = Some 10 \<and>
   position_history (update_position_history hist_ctx (3, 4) 10.2) = [((0, 0), 10), ((3, 4), 10.2)]"
proof -
  have r2: "map fst (filter (\<lambda>(pos, ts). 10.2 - ts \<le> 0.5) (position_history two_ctx))
      = [(0, 0), (100, 0)]"
    "map fst (filter (\<lambda>(pos, ts). 10.2 - ts \<le> 0.5)
       (position_history (two_ctx\<lparr>pixels_per_mm := Some 2\<rparr>))) = [(0, 0), (100, 0)]"
    by (simp_all add: two_ctx_def)
  have r1: "map fst (filter (\<lambda>(pos, ts). 10.2 - ts \<le> 0.5) (position_history old_ctx))
      = [(100, 0)]"
    by (simp add: old_ctx_def)
  have w1: "last_movement_time (update_position_history two_ctx (50, 0) 10.2) = Some 10"
    using movement_detector_spec [where s = two_ctx and now = "10.2" and p = 1
        and recent = "[(0, 0), (100, 0)]" and mean_x = 50 and mean_y = 0 and cx = 50 and cy = 0]
      r2
    by (simp add: two_ctx_def)
  have w2: "last_movement_time (update_position_history two_ctx (53, 4) 10.2) = Some 10.2"
    using movement_detector_spec [where s = two_ctx and now = "10.2" and p = 1
        and recent = "[(0, 0), (100, 0)]" and mean_x = 50 and mean_y = 0 and cx = 53 and cy = 4]
      r2 sqrt_25
    by (simp add: two_ctx_def)
  have w3: "last_movement_time
      (update_position_history (two_ctx\<lparr>pixels_per_mm := Some 2\<rparr>) (53, 4) 10.2) = Some 10"
    using movement_detector_spec [where s = "two_ctx\<lparr>pixels_per_mm := Some 2\<rparr>" and now = "10.2"
        and p = 2 and recent = "[(0, 0), (100, 0)]" and mean_x = 50 and mean_y = 0
        and cx = 53 and cy = 4]
      r2 sqrt_25
    by (simp add: two_ctx_def)
  have w4: "last_movement_time (update_position_history old_ctx (100, 0) 10.2) = Some 9"
    using movement_detector_spec [where s = old_ctx and now = "10.2" and p = 1
        and recent = "[(100, 0)]" and mean_x = 100 and mean_y = 0 and cx = 100 and cy = 0]
      r1
    by (simp add: old_ctx_def)
  have w5: "last_movement_time (update_position_history old_ctx (50, 0) 10.2) = Some 10.2"
    using movement_detector_spec [where s = old_ctx and now = "10.2" and p = 1
        and recent = "[(100, 0)]" and mean_x = 100 and mean_y = 0 and cx = 50 and cy = 0]
      r1
    by (simp add: old_ctx_def)
  have w6: "last_movement_time (update_position_history hist_ctx (3, 4) 10.2) = Some 10 \<and>
     position_history (update_position_history hist_ctx (3, 4) 10.2) = [((0, 0), 10), ((3, 4), 10.2)]"
    using movement_detector_spec [where s = hist_ctx and now = "10.2" and cx = 3 and cy = 4]
    by (simp add: hist_ctx_def initial_ctx_def history_after_update deque_append_def)
  from w1 w2 w3 w4 w5 w6 show ?thesis by simp
qed

lemma evict_ordered_within:
  "sorted (map snd h) \<Longrightarrow> list_all (\<lambda>(pos, ts). now - ts \<le> 3.0) (evict now (h @ [(c, now)]))"
proof (induction h)
  case Nil
  then show ?case by simp
next
  case (Cons x h)
  obtain pos ts where x: "x = (pos, ts)" by (cases x)
  show ?case
  proof (cases "now - ts > 3.0")
    case True
    with Cons x show ?thesis by simp
  next
    case False
    from Cons.prems x have "\<forall>y \<in> set h. ts \<le> snd y" by simp
    with False have "\<forall>y \<in> set h. now - snd y \<le> 3.0" by fastforce
    with False x show ?thesis by (auto simp: list_all_iff)
  qed
qed

lemma evict_sorted: "sorted (map snd h) \<Longrightarrow> sorted (map snd (evict now h))"
  by (induction h) auto

text \<open>
  C6, as stated, fails: the loop pops only while the leftmost sample is too old, so an old
  sample behind a newer one stays. After updates at times 10, 0 and 10.1 the sample of
  time 0 is still stored at time 10.1.
\<close>

theorem retention_counterexample:
  "position_history backward_clock_ctx = [((0, 0), 10), ((0, 0), 0), ((0, 0), 10.1)] \<and>
   \<not> within_retention 10.1 (position_history backward_clock_ctx)"
proof -
  have s1: "update_position_history initial_ctx (0, 0) 10
      = initial_ctx\<lparr>position_history := [((0, 0), 10)], last_movement_time := Some 10\<rparr>"
    by (simp add: update_position_history_def initial_ctx_def deque_append_def)
  have s2: "position_history (update_position_history
      (initial_ctx\<lparr>position_history := [((0, 0), 10)], last_movement_time := Some 10\<rparr>) (0, 0) 0)
      = [((0, 0), 10), ((0, 0), 0)]"
    by (simp add: history_after_update deque_append_def)
  have s3: "position_history backward_clock_ctx = [((0, 0), 10), ((0, 0), 0), ((0, 0), 10.1)]"
    unfolding backward_clock_ctx_def s1 using s2
    by (simp add: history_after_update deque_append_def)
  then show ?thesis by (simp add: within_retention_def)
qed

text \<open>
  C6, amended. When the stored timestamps are in non-decreasing order, every sample left
  after the update is at most 3.0 old; and when \<open>now\<close> is not before any stored
  timestamp, the order is kept, so with a clock that never steps back the bound holds
  after every call.
\<close>

theorem retention_ordered:
  "timestamps_ordered (position_history s) \<longrightarrow>
     within_retention now (position_history (update_position_history s cur now)) \<and>
     ((\<forall>x \<in> set (position_history s). snd x \<le> now) \<longrightarrow>
        timestamps_ordered (position_history (update_position_history s cur now)))"
proof
  assume o: "timestamps_ordered (position_history s)"
  show "within_retention now (position_history (update_position_history s cur now)) \<and>
     ((\<forall>x \<in> set (position_history s). snd x \<le> now) \<longrightarrow>
        timestamps_ordered (position_history (update_position_history s cur now)))"
  proof (cases "position_history s = []")
    case True
    then show ?thesis
      by (simp add: update_position_history_def deque_append_def within_retention_def
          timestamps_ordered_def)
  next
    case False
    from o obtain h' where
      d: "deque_append (position_history s) (cur, now) = h' @ [(cur, now)]" and
      sh: "sorted (map snd h')" and hs: "set h' \<subseteq> set (position_history s)"
      using deque_append_ordered unfolding timestamps_ordered_def by blast
    have w: "within_retention now (position_history (update_position_history s cur now))"
      using False d evict_ordered_within [OF sh]
      by (simp add: history_after_update within_retention_def)
    have "timestamps_ordered (position_history (update_position_history s cur now))"
      if le: "\<forall>x \<in> set (position_history s). snd x \<le> now"
    proof -
      from le hs have "\<forall>x \<in> set h'. snd x \<le> now" by blast
      with sh have "sorted (map snd (h' @ [(cur, now)]))"
        by (simp add: sorted_append)
      then show ?thesis
        using False d evict_sorted
        by (simp add: history_after_update timestamps_ordered_def)
    qed
    with w show ?thesis by simp
  qed
qed

theorem retention_ordered_witness:
  "position_history (update_position_history ordered_ctx (3, 3) 6) = [((2, 2), 5), ((3, 3), 6)] \<and>
   within_retention 6 (position_history (update_position_history ordered_ctx (3, 3) 6)) \<and>
   timestamps_ordered (position_history (update_position_history ordered_ctx (3, 3) 6))"
proof -
  have o: "timestamps_ordered (position_history ordered_ctx)"
    by (simp add: timestamps_ordered_def ordered_ctx_def)
  have le: "\<forall>x \<in> set (position_history ordered_ctx). snd x \<le> 6"
    by (simp add: ordered_ctx_def)
  have h: "position_history (update_position_history ordered_ctx (3, 3) 6) = [((2, 2), 5), ((3, 3), 6)]"
    by (simp add: history_after_update ordered_ctx_def deque_append_def)
  from retention_ordered [of ordered_ctx 6 "(3, 3)"] o le h show ?thesis by simp
qed

subsection \<open>Calibration\<close>

lemma scan_no_target_scale:
  "\<forall>qt \<in> set qs. data (fst qt) \<noteq> TARGET_QR_DATA \<Longrightarrow>
   scan_qr_codes s now qs = Inr (s', ev) \<Longrightarrow> pixels_per_mm s' = pixels_per_mm s"
proof (induction qs arbitrary: s s' ev)
  case Nil
  then show ?case by simp
next
  case (Cons qt qs)
  obtain q t where qt: "qt = (q, t)" by (cases qt)
  from Cons.prems(2) obtain s1 ev1 s2 ev2 where
    h: "handle_qr_code s now qt = Inr (s1, ev1)" and
    r: "scan_qr_codes s1 now qs = Inr (s2, ev2)" and e: "s' = s2"
    by (auto split: sum.splits)
  from h Cons.prems(1) qt have "pixels_per_mm s1 = pixels_per_mm s"
    by (auto simp: handle_qr_code_def handle_center_def reacquire_def
        split: if_splits option.splits)
  moreover from Cons.IH [OF _ r] Cons.prems(1) have "pixels_per_mm s2 = pixels_per_mm s1"
    by simp
  ultimately show ?case using e by simp
qed

text \<open>
  C5. Handling a target marker returns (no exception) from every state in which a set
  center has a pixel. With a pixel width \<open>w > 0\<close> it sets the scale to \<open>w / 38.1\<close>
  (38.1 = 1.5 * 2.54 * 10), which is positive; a width that is not positive leaves the
  scale as it was; and so does an iteration of either main loop in which no target
  marker is detected.
\<close>

theorem calibrator_spec:
  "(wf_ctx s \<longrightarrow> (\<exists>s1 ev1. track_target s q now = Inr (s1, ev1))) \<and>
   (track_target s q now = Inr (s', ev) \<and> pixel_width q > 0 \<longrightarrow>
      pixels_per_mm s' = Some (pixel_width q / 38.1) \<and> pixel_width q / 38.1 > 0) \<and>
   (track_target s q now = Inr (s', ev) \<and> \<not> pixel_width q > 0 \<longrightarrow>
      pixels_per_mm s' = pixels_per_mm s) \<and>
   (manual_iteration s mi = Inr (s', ev, go) \<and> \<not> found_target_qr (m_detected mi) \<longrightarrow>
      pixels_per_mm s' = pixels_per_mm s) \<and>
   (dual_iteration s di = Inr (s', ev, go) \<and>
      (\<forall>qt \<in> set (d_qr_codes di). data (fst qt) \<noteq> TARGET_QR_DATA) \<longrightarrow>
      pixels_per_mm s' = pixels_per_mm s)"
proof -
  have p0: "wf_ctx s \<longrightarrow> (\<exists>s1 ev1. track_target s q now = Inr (s1, ev1))"
    using track_target_total [of s q now] by blast
  have p1: "track_target s q now = Inr (s', ev) \<and> pixel_width q > 0 \<longrightarrow>
      pixels_per_mm s' = Some (pixel_width q / 38.1) \<and> pixel_width q / 38.1 > 0"
    by (auto dest!: track_target_state simp: calibrate_def width_mm)
  have p2: "track_target s q now = Inr (s', ev) \<and> \<not> pixel_width q > 0 \<longrightarrow>
      pixels_per_mm s' = pixels_per_mm s"
    by (auto dest!: track_target_state simp: calibrate_def)
  have p3: "manual_iteration s mi = Inr (s', ev, go) \<and> \<not> found_target_qr (m_detected mi) \<longrightarrow>
      pixels_per_mm s' = pixels_per_mm s"
    by (auto simp: manual_iteration_def manual_frame_def manual_key_def found_target_qr_def
        split: if_splits option.splits sum.splits)
  have p4: "dual_iteration s di = Inr (s', ev, go) \<and>
      (\<forall>qt \<in> set (d_qr_codes di). data (fst qt) \<noteq> TARGET_QR_DATA) \<longrightarrow>
      pixels_per_mm s' = pixels_per_mm s"
  proof
    assume a: "dual_iteration s di = Inr (s', ev, go) \<and>
      (\<forall>qt \<in> set (d_qr_codes di). data (fst qt) \<noteq> TARGET_QR_DATA)"
    show "pixels_per_mm s' = pixels_per_mm s"
    proof (cases "d_ret di")
      case False
      with a show ?thesis by (simp add: dual_iteration_def)
    next
      case True
      with a obtain s1 ev1 where
        sc: "scan_qr_codes s (d_current_time di) (d_qr_codes di) = Inr (s1, ev1)" and
        k: "pixels_per_mm s' = pixels_per_mm s1"
        by (auto simp: dual_iteration_def dual_key_def split: sum.splits if_splits)
      from scan_no_target_scale [OF _ sc] a k show ?thesis by simp
    qed
  qed
  from p0 p1 p2 p3 p4 show ?thesis by (intro conjI)
qed

theorem calibrator_spec_witness:
  "(\<exists>s1 ev1. track_target initial_ctx target_q 0 = Inr (s1, ev1)) \<and>
   pixels_per_mm (fst (projr (track_target initial_ctx target_q 0))) = Some 10 \<and>
   pixels_per_mm (fst (projr (track_target (initial_ctx\<lparr>pixels_per_mm := Some 7\<rparr>)
       (target_q\<lparr>pixel_width := 0\<rparr>) 0))) = Some 7 \<and>
   pixels_per_mm (fst (projr (manual_iteration (initial_ctx\<lparr>pixels_per_mm := Some 7\<rparr>)
       \<lparr>m_ret = True, m_current_time = 0, m_detected = None, m_key = 255, m_key_time = 0\<rparr>))) = Some 7 \<and>
   pixels_per_mm (fst (projr (dual_iteration (initial_ctx\<lparr>pixels_per_mm := Some 7\<rparr>)
       \<lparr>d_ret = True, d_current_time = 0, d_qr_codes = [], d_key = 255\<rparr>))) = Some 7"
proof -
  let ?s7 = "initial_ctx\<lparr>pixels_per_mm := Some 7\<rparr>"
  let ?q0 = "target_q\<lparr>pixel_width := 0\<rparr>"
  let ?mi = "\<lparr>m_ret = True, m_current_time = 0, m_detected = None, m_key = 255, m_key_time = 0\<rparr>"
  let ?di = "\<lparr>d_ret = True, d_current_time = 0, d_qr_codes = [], d_key = 255\<rparr>"
  obtain s1 where t1: "track_target initial_ctx target_q 0 = Inr (s1, [])"
    by (simp add: track_target_def target_q_def initial_ctx_def)
  obtain s2 where t2: "track_target ?s7 ?q0 0 = Inr (s2, [])"
    by (simp add: track_target_def target_q_def initial_ctx_def)
  have t3: "manual_iteration ?s7 ?mi = Inr (?s7, [], True)"
    by (simp add: manual_iteration_def manual_frame_def manual_key_def)
  have t4: "dual_iteration ?s7 ?di = Inr (?s7, [], True)"
    by (simp add: dual_iteration_def dual_key_def)
  have pw: "pixel_width target_q > 0" "\<not> pixel_width ?q0 > 0" "pixel_width target_q / 38.1 = 10"
    by (simp_all add: target_q_def)
  have nf: "\<not> found_target_qr (m_detected ?mi)"
       "\<forall>qt \<in> set (d_qr_codes ?di). data (fst qt) \<noteq> TARGET_QR_DATA"
    by (simp_all add: found_target_qr_def)
  have wf: "wf_ctx initial_ctx"
    by (simp add: wf_ctx_def initial_ctx_def)
  have w0: "\<exists>s1 ev1. track_target initial_ctx target_q 0 = Inr (s1, ev1)"
    using calibrator_spec [where s = initial_ctx and q = target_q and now = 0] wf by blast
  have w1: "pixels_per_mm s1 = Some 10"
    using calibrator_spec [where s = initial_ctx and q = target_q and now = 0 and ev = "[]"
        and s' = s1] t1 pw by simp
  have w2: "pixels_per_mm s2 = Some 7"
    using calibrator_spec [where s = ?s7 and q = ?q0 and now = 0 and ev = "[]"
        and s' = s2] t2 pw(2) by simp
  have w3: "pixels_per_mm ?s7 = Some 7"
    using calibrator_spec [where s = ?s7 and s' = ?s7 and ev = "[]" and go = True
        and mi = ?mi and di = ?di] t3 t4 nf by simp
  from w0 w1 w2 w3 show ?thesis by (simp add: t1 t2 t3 t4)
qed

subsection \<open>Setting the center by key (motion\_tracker.py)\<close>

text \<open>
  C8. Key \<open>c\<close> in an iteration whose frame shows no target marker: the iteration prints
  the warning and nothing else, leaves every global as it was, and the loop goes on.
\<close>

theorem set_center_rejected:
  "m_ret mi \<and> \<not> found_target_qr (m_detected mi) \<and> m_key mi = 99 \<longrightarrow>
     manual_iteration s mi = Inr (s, [WarningMsg], True)"
  by (auto simp: manual_iteration_def manual_frame_def manual_key_def found_target_qr_def
      split: option.splits)

theorem set_center_rejected_witness:
  "manual_iteration (initial_ctx\<lparr>pixels_per_mm := Some 7\<rparr>)
     \<lparr>m_ret = True, m_current_time = 3, m_detected = Some center_q, m_key = 99, m_key_time = 4\<rparr>
   = Inr (initial_ctx\<lparr>pixels_per_mm := Some 7\<rparr>, [WarningMsg], True)"
proof -
  have "\<not> found_target_qr (Some center_q)"
    by (simp add: found_target_qr_def center_q_def TARGET_QR_DATA_def CENTER_QR_DATA_def)
  then show ?thesis
    using set_center_rejected [of "\<lparr>m_ret = True, m_current_time = 3, m_detected = Some center_q,
      m_key = 99, m_key_time = 4\<rparr>" "initial_ctx\<lparr>pixels_per_mm := Some 7\<rparr>"]
    by simp
qed

text \<open>
  C10. An iteration returns (no exception) from every state in which a set center has a
  pixel. Key \<open>c\<close> in an iteration whose frame shows the target marker: the center becomes
  the marker's center, the history is emptied and the last movement time is the clock
  value read by the handler, so the target is not still before that time plus 1.0.
\<close>

theorem set_center_accepted:
  "(wf_ctx s \<longrightarrow> (\<exists>s1 ev1 go1. manual_iteration s mi = Inr (s1, ev1, go1))) \<and>
   (m_ret mi \<and> m_detected mi = Some q \<and> data q = TARGET_QR_DATA \<and> m_key mi = 99 \<and>
    manual_iteration s mi = Inr (s', ev, go) \<longrightarrow>
      center_pixel s' = Some (center q) \<and> is_center_set s' \<and>
      position_history s' = [] \<and> last_movement_time s' = Some (m_key_time mi) \<and>
      (\<forall>t. is_qr_still s' t \<longleftrightarrow> t - m_key_time mi \<ge> 1.0) \<and> go)"
proof -
  have p0: "wf_ctx s \<longrightarrow> (\<exists>s1 ev1 go1. manual_iteration s mi = Inr (s1, ev1, go1))"
    using manual_iteration_total [of s mi] by blast
  have p1: "m_ret mi \<and> m_detected mi = Some q \<and> data q = TARGET_QR_DATA \<and> m_key mi = 99 \<and>
    manual_iteration s mi = Inr (s', ev, go) \<longrightarrow>
      center_pixel s' = Some (center q) \<and> is_center_set s' \<and>
      position_history s' = [] \<and> last_movement_time s' = Some (m_key_time mi) \<and>
      (\<forall>t. is_qr_still s' t \<longleftrightarrow> t - m_key_time mi \<ge> 1.0) \<and> go"
    by (auto simp: manual_iteration_def manual_frame_def manual_key_def found_target_qr_def
        is_qr_still_def STILL_TIME_THRESHOLD_def split: sum.splits)
  from p0 p1 show ?thesis by (intro conjI)
qed

theorem set_center_accepted_witness:
  "(\<exists>s1 ev1 go1. manual_iteration initial_ctx
     \<lparr>m_ret = True, m_current_time = 3, m_detected = Some target_q, m_key = 99, m_key_time = 4\<rparr>
     = Inr (s1, ev1, go1)) \<and>
   center_pixel (fst (projr (manual_iteration initial_ctx
     \<lparr>m_ret = True, m_current_time = 3, m_detected = Some target_q, m_key = 99, m_key_time = 4\<rparr>)))
     = Some (10, 20) \<and>
   position_history (fst (projr (manual_iteration initial_ctx
     \<lparr>m_ret = True, m_current_time = 3, m_detected = Some target_q, m_key = 99, m_key_time = 4\<rparr>)))
     = [] \<and>
   last_movement_time (fst (projr (manual_iteration initial_ctx
     \<lparr>m_ret = True, m_current_time = 3, m_detected = Some target_q, m_key = 99, m_key_time = 4\<rparr>)))
     = Some 4 \<and>
   \<not> is_qr_still (fst (projr (manual_iteration initial_ctx
     \<lparr>m_ret = True, m_current_time = 3, m_detected = Some target_q, m_key = 99, m_key_time = 4\<rparr>))) 4.5"
proof -
  let ?mi = "\<lparr>m_ret = True, m_current_time = 3, m_detected = Some target_q, m_key = 99, m_key_time = 4\<rparr>"
  have wf: "wf_ctx initial_ctx"
    by (simp add: wf_ctx_def initial_ctx_def)
  from set_center_accepted [where s = initial_ctx and mi = ?mi] wf
  obtain s2 ev2 go2 where m: "manual_iteration initial_ctx ?mi = Inr (s2, ev2, go2)"
    by blast
  have d: "data target_q = TARGET_QR_DATA" "center target_q = (10, 20)"
    by (simp_all add: target_q_def)
  from set_center_accepted [where mi = ?mi and q = target_q and s = initial_ctx
        and s' = s2 and ev = ev2 and go = go2] m d
  have "center_pixel s2 = Some (10, 20) \<and> position_history s2 = [] \<and>
        last_movement_time s2 = Some 4 \<and> \<not> is_qr_still s2 4.5"
    by simp
  with m show ?thesis by simp
qed

subsection \<open>The center marker (qr\_tracker.py)\<close>

lemma sqrt_le_10: "0 \<le> x \<Longrightarrow> (sqrt x \<le> 10) = (x \<le> 100)"
  using real_sqrt_le_iff [of x 100] real_sqrt_abs [of 10] by simp

lemma sqrt_gt_10: "(sqrt x > 10) = (x > 100)"
  using real_sqrt_less_iff [of 100 x] real_sqrt_abs [of 10] by simp

lemma handle_qr_code_keeps_reference:
  assumes "is_center_set s" "center_pixel s = Some r"
    and "data q = CENTER_QR_DATA \<longrightarrow>
           sqrt (real_of_int ((fst (center q) - fst r)\<^sup>2 + (snd (center q) - snd r)\<^sup>2)) \<le> 10"
  shows "\<exists>s' ev. handle_qr_code s now (q, t) = Inr (s', ev) \<and>
           is_center_set s' \<and> center_pixel s' = Some r"
proof (cases "data q = CENTER_QR_DATA")
  case True
  with assms show ?thesis
    by (simp add: handle_qr_code_def handle_center_def center_distance_def)
next
  case False
  show ?thesis
  proof (cases "data q = TARGET_QR_DATA")
    case True
    from assms have "wf_ctx s" by (simp add: wf_ctx_def)
    from track_target_total [OF this, of q now] obtain ev where
      "track_target s q now = Inr (update_position_history (calibrate s q) (center q) now, ev)"
      by blast
    with True False assms show ?thesis
      by (simp add: handle_qr_code_def)
  next
    case f: False
    with False assms show ?thesis by (simp add: handle_qr_code_def)
  qed
qed

lemma scan_keeps_reference:
  "is_center_set s \<Longrightarrow> center_pixel s = Some r \<Longrightarrow> center_within r qs \<Longrightarrow>
   \<exists>s' ev. scan_qr_codes s now qs = Inr (s', ev) \<and> is_center_set s' \<and> center_pixel s' = Some r"
proof (induction qs arbitrary: s)
  case Nil
  then show ?case by simp
next
  case (Cons qt qs)
  obtain q t where qt: "qt = (q, t)" by (cases qt)
  from Cons.prems(3) qt have
    c: "data q = CENTER_QR_DATA \<longrightarrow>
          sqrt (real_of_int ((fst (center q) - fst r)\<^sup>2 + (snd (center q) - snd r)\<^sup>2)) \<le> 10" and
    rest: "center_within r qs"
    by (simp_all add: center_within_def)
  from handle_qr_code_keeps_reference [OF Cons.prems(1) Cons.prems(2) c, of now t]
  obtain s1 ev1 where h: "handle_qr_code s now (q, t) = Inr (s1, ev1)"
    and k: "is_center_set s1" "center_pixel s1 = Some r"
    by blast
  from Cons.IH [OF k rest] obtain s2 ev2 where
    "scan_qr_codes s1 now qs = Inr (s2, ev2)" "is_center_set s2" "center_pixel s2 = Some r"
    by blast
  with h qt show ?case by simp
qed

lemma dual_iteration_keeps_reference:
  assumes "is_center_set s" "center_pixel s = Some r" "d_key inp \<noteq> 114"
    "center_within r (d_qr_codes inp)"
  shows "\<exists>s' ev go. dual_iteration s inp = Inr (s', ev, go) \<and>
           is_center_set s' \<and> center_pixel s' = Some r"
proof (cases "d_ret inp")
  case False
  with assms show ?thesis by (auto simp: dual_iteration_def)
next
  case True
  from scan_keeps_reference [OF assms(1) assms(2) assms(4), of "d_current_time inp"]
  obtain s1 ev1 where "scan_qr_codes s (d_current_time inp) (d_qr_codes inp) = Inr (s1, ev1)"
    "is_center_set s1" "center_pixel s1 = Some r"
    by blast
  with True assms(3) show ?thesis
    by (auto simp: dual_iteration_def dual_key_def)
qed

lemma dual_loop_keeps_reference:
  "is_center_set s \<Longrightarrow> center_pixel s = Some r \<Longrightarrow> frames_within r inps \<Longrightarrow>
   \<exists>s' ev. dual_loop s inps = Inr (s', ev) \<and> is_center_set s' \<and> center_pixel s' = Some r"
proof (induction inps arbitrary: s)
  case Nil
  then show ?case by simp
next
  case (Cons inp inps)
  from Cons.prems(3) have k: "d_key inp \<noteq> 114" and c: "center_within r (d_qr_codes inp)"
    and rest: "frames_within r inps"
    by (simp_all add: frames_within_def)
  from dual_iteration_keeps_reference [OF Cons.prems(1) Cons.prems(2) k c]
  obtain s1 ev1 go where it: "dual_iteration s inp = Inr (s1, ev1, go)"
    and k1: "is_center_set s1" "center_pixel s1 = Some r"
    by blast
  show ?case
  proof (cases go)
    case False
    with it k1 show ?thesis by simp
  next
    case True
    from Cons.IH [OF k1 rest] obtain s2 ev2 where
      "dual_loop s1 inps = Inr (s2, ev2)" "is_center_set s2" "center_pixel s2 = Some r"
      by blast
    with it True show ?thesis by simp
  qed
qed

text \<open>
  C4. From a state with a stored center \<open>(rx, ry)\<close>, a run of loop iterations in which
  every detected center marker \<open>(cx, cy)\<close> has
  \<open>sqrt ((cx - rx)\<^sup>2 + (cy - ry)\<^sup>2) \<le> 10\<close> (and key \<open>r\<close>, the reset command, is not
  pressed) ends with the center still set to \<open>(rx, ry)\<close>; this holds for every such
  run, hence after each of its frames. And handling one center marker \<open>(cx, cy)\<close> when
  no center is set, or when \<open>sqrt ((cx - rx)\<^sup>2 + (cy - ry)\<^sup>2) > 10\<close>, overwrites the
  center with \<open>(cx, cy)\<close>, empties the history and sets the last movement time to the
  clock value read at that moment; a frame that shows this marker alone ends in that
  state.
\<close>

theorem reference_hysteresis:
  "(is_center_set s \<and> center_pixel s = Some (rx, ry) \<and> frames_within (rx, ry) inps \<longrightarrow>
      (\<exists>s' ev. dual_loop s inps = Inr (s', ev) \<and> is_center_set s' \<and>
         center_pixel s' = Some (rx, ry))) \<and>
   (data q = CENTER_QR_DATA \<and> center q = (cx, cy) \<and>
    (\<not> is_center_set s \<or>
     (center_pixel s = Some (rx, ry) \<and>
      sqrt (real_of_int ((cx - rx)\<^sup>2 + (cy - ry)\<^sup>2)) > 10)) \<longrightarrow>
      handle_qr_code s now (q, t) =
        Inr (s\<lparr>center_pixel := Some (cx, cy), is_center_set := True,
               last_movement_time := Some t, position_history := []\<rparr>,
             [CenterSetMsg (cx, cy)])) \<and>
   (data q = CENTER_QR_DATA \<and> center q = (cx, cy) \<and>
    (\<not> is_center_set s \<or>
     (center_pixel s = Some (rx, ry) \<and>
      sqrt (real_of_int ((cx - rx)\<^sup>2 + (cy - ry)\<^sup>2)) > 10)) \<and>
    d_ret inp \<and> d_qr_codes inp = [(q, t)] \<and> d_key inp \<noteq> 113 \<and> d_key inp \<noteq> 114 \<longrightarrow>
      dual_iteration s inp =
        Inr (s\<lparr>center_pixel := Some (cx, cy), is_center_set := True,
               last_movement_time := Some t, position_history := []\<rparr>,
             [CenterSetMsg (cx, cy)], True))"
proof -
  have p1: "is_center_set s \<and> center_pixel s = Some (rx, ry) \<and> frames_within (rx, ry) inps \<longrightarrow>
      (\<exists>s' ev. dual_loop s inps = Inr (s', ev) \<and> is_center_set s' \<and>
         center_pixel s' = Some (rx, ry))"
    using dual_loop_keeps_reference by blast
  have p2: "data q = CENTER_QR_DATA \<and> center q = (cx, cy) \<and>
    (\<not> is_center_set s \<or>
     (center_pixel s = Some (rx, ry) \<and>
      sqrt (real_of_int ((cx - rx)\<^sup>2 + (cy - ry)\<^sup>2)) > 10)) \<longrightarrow>
      handle_qr_code s now (q, t) =
        Inr (s\<lparr>center_pixel := Some (cx, cy), is_center_set := True,
               last_movement_time := Some t, position_history := []\<rparr>,
             [CenterSetMsg (cx, cy)])" for now
    by (auto simp: handle_qr_code_def handle_center_def reacquire_def center_distance_def)
  have p3: "data q = CENTER_QR_DATA \<and> center q = (cx, cy) \<and>
    (\<not> is_center_set s \<or>
     (center_pixel s = Some (rx, ry) \<and>
      sqrt (real_of_int ((cx - rx)\<^sup>2 + (cy - ry)\<^sup>2)) > 10)) \<and>
    d_ret inp \<and> d_qr_codes inp = [(q, t)] \<and> d_key inp \<noteq> 113 \<and> d_key inp \<noteq> 114 \<longrightarrow>
      dual_iteration s inp =
        Inr (s\<lparr>center_pixel := Some (cx, cy), is_center_set := True,
               last_movement_time := Some t, position_history := []\<rparr>,
             [CenterSetMsg (cx, cy)], True)"
  proof
    assume a: "data q = CENTER_QR_DATA \<and> center q = (cx, cy) \<and>
      (\<not> is_center_set s \<or>
       (center_pixel s = Some (rx, ry) \<and>
        sqrt (real_of_int ((cx - rx)\<^sup>2 + (cy - ry)\<^sup>2)) > 10)) \<and>
      d_ret inp \<and> d_qr_codes inp = [(q, t)] \<and> d_key inp \<noteq> 113 \<and> d_key inp \<noteq> 114"
    with p2 [of "d_current_time inp"] have
      "handle_qr_code s (d_current_time inp) (q, t) =
        Inr (s\<lparr>center_pixel := Some (cx, cy), is_center_set := True,
               last_movement_time := Some t, position_history := []\<rparr>,
             [CenterSetMsg (cx, cy)])"
      by blast
    with a show "dual_iteration s inp =
        Inr (s\<lparr>center_pixel := Some (cx, cy), is_center_set := True,
               last_movement_time := Some t, position_history := []\<rparr>,
             [CenterSetMsg (cx, cy)], True)"
      by (simp add: dual_iteration_def dual_key_def)
  qed
  from p1 p2 p3 show ?thesis by (intro conjI)
qed

theorem reference_hysteresis_witness:
  "is_center_set (fst (projr (dual_loop ref_ctx near_frames))) \<and>
   center_pixel (fst (projr (dual_loop ref_ctx near_frames))) = Some (100, 100) \<and>
   handle_qr_code ref_ctx 4 (far_q, 5) =
     Inr (ref_ctx\<lparr>center_pixel := Some (120, 130), is_center_set := True,
            last_movement_time := Some 5, position_history := []\<rparr>,
          [CenterSetMsg (120, 130)]) \<and>
   handle_qr_code ref_ctx 4 (above_q, 5) =
     Inr (ref_ctx\<lparr>center_pixel := Some (100, 200), is_center_set := True,
            last_movement_time := Some 5, position_history := []\<rparr>,
          [CenterSetMsg (100, 200)]) \<and>
   handle_qr_code initial_ctx 4 (far_q, 5) =
     Inr (initial_ctx\<lparr>center_pixel := Some (120, 130), is_center_set := True,
            last_movement_time := Some 5, position_history := []\<rparr>,
          [CenterSetMsg (120, 130)]) \<and>
   dual_iteration ref_ctx
     \<lparr>d_ret = True, d_current_time = 4, d_qr_codes = [(far_q, 5)], d_key = 255\<rparr> =
     Inr (ref_ctx\<lparr>center_pixel := Some (120, 130), is_center_set := True,
            last_movement_time := Some 5, position_history := []\<rparr>,
          [CenterSetMsg (120, 130)], True)"
proof -
  let ?inp = "\<lparr>d_ret = True, d_current_time = 4, d_qr_codes = [(far_q, 5)], d_key = 255\<rparr>"
  have f: "frames_within (100, 100) near_frames"
    by (simp add: frames_within_def near_frames_def center_within_def center_q_def near_q_def
        sqrt_le_10)
  have r: "is_center_set ref_ctx" "center_pixel ref_ctx = Some (100, 100)"
    by (simp_all add: ref_ctx_def)
  have c: "data far_q = CENTER_QR_DATA" "center far_q = (120, 130)"
    "data above_q = CENTER_QR_DATA" "center above_q = (100, 200)"
    by (simp_all add: far_q_def above_q_def)
  have d3: "sqrt (real_of_int ((120 - 100)\<^sup>2 + (130 - 100)\<^sup>2)) > 10"
    "sqrt (real_of_int ((100 - 100)\<^sup>2 + (200 - 100)\<^sup>2)) > 10"
    by (simp_all add: sqrt_gt_10)
  have ni: "\<not> is_center_set initial_ctx"
    by (simp add: initial_ctx_def)
  have k: "d_ret ?inp" "d_qr_codes ?inp = [(far_q, 5)]" "d_key ?inp \<noteq> 113" "d_key ?inp \<noteq> 114"
    by simp_all
  from reference_hysteresis [where s = ref_ctx and rx = 100 and ry = 100 and inps = near_frames
      and q = far_q and cx = 120 and cy = 130 and now = 4 and t = 5 and inp = ?inp] r f c d3 k
  have w1: "\<exists>s' ev. dual_loop ref_ctx near_frames = Inr (s', ev) \<and> is_center_set s' \<and>
              center_pixel s' = Some (100, 100)"
    and w2: "handle_qr_code ref_ctx 4 (far_q, 5) =
     Inr (ref_ctx\<lparr>center_pixel := Some (120, 130), is_center_set := True,
            last_movement_time := Some 5, position_history := []\<rparr>,
          [CenterSetMsg (120, 130)])"
    and w4: "dual_iteration ref_ctx ?inp =
     Inr (ref_ctx\<lparr>center_pixel := Some (120, 130), is_center_set := True,
            last_movement_time := Some 5, position_history := []\<rparr>,
          [CenterSetMsg (120, 130)], True)"
    by simp_all
  from reference_hysteresis [where s = ref_ctx and rx = 100 and ry = 100 and inps = "[]"
      and q = above_q and cx = 100 and cy = 200 and now = 4 and t = 5] r c d3
  have w5: "handle_qr_code ref_ctx 4 (above_q, 5) =
     Inr (ref_ctx\<lparr>center_pixel := Some (100, 200), is_center_set := True,
            last_movement_time := Some 5, position_history := []\<rparr>,
          [CenterSetMsg (100, 200)])"
    by simp
  from reference_hysteresis [where s = initial_ctx and rx = 100 and ry = 100 and inps = "[]"
      and q = far_q and cx = 120 and cy = 130 and now = 4 and t = 5] ni c
  have w3: "handle_qr_code initial_ctx 4 (far_q, 5) =
     Inr (initial_ctx\<lparr>center_pixel := Some (120, 130), is_center_set := True,
            last_movement_time := Some 5, position_history := []\<rparr>,
          [CenterSetMsg (120, 130)])"
    by simp
  from w1 w2 w3 w4 w5 show ?thesis by auto
qed

subsection \<open>Frames without the target marker\<close>

lemma scan_no_target:
  "wf_ctx s \<Longrightarrow> no_target qs \<Longrightarrow>
   \<exists>s' ev. scan_qr_codes s now qs = Inr (s', ev) \<and> wf_ctx s' \<and>
     pixels_per_mm s' = pixels_per_mm s \<and> no_status ev"
proof (induction qs arbitrary: s)
  case Nil
  then show ?case by (simp add: no_status_def)
next
  case (Cons qt qs)
  obtain q t where qt: "qt = (q, t)" by (cases qt)
  from Cons.prems(2) qt have nt: "data q \<noteq> TARGET_QR_DATA" and rest: "no_target qs"
    by (simp_all add: no_target_def)
  have "\<exists>s1 ev1. handle_qr_code s now (q, t) = Inr (s1, ev1) \<and> wf_ctx s1 \<and>
     pixels_per_mm s1 = pixels_per_mm s \<and> no_status ev1"
    using handle_center_total [OF Cons.prems(1), of q t] nt Cons.prems(1)
    by (simp add: handle_qr_code_def no_status_def)
  then obtain s1 ev1 where h: "handle_qr_code s now (q, t) = Inr (s1, ev1)"
    and k: "wf_ctx s1" "pixels_per_mm s1 = pixels_per_mm s" "no_status ev1"
    by blast
  from Cons.IH [OF k(1) rest] obtain s2 ev2 where
    "scan_qr_codes s1 now qs = Inr (s2, ev2)" "wf_ctx s2"
    "pixels_per_mm s2 = pixels_per_mm s1" "no_status ev2"
    by blast
  with h k qt show ?case by (simp add: no_status_def)
qed

lemma scan_nothing_happens:
  "no_target qs \<Longrightarrow> no_reacquire s qs \<Longrightarrow> scan_qr_codes s now qs = Inr (s, [])"
proof (induction qs)
  case Nil
  then show ?case by simp
next
  case (Cons qt qs)
  obtain q t where qt: "qt = (q, t)" by (cases qt)
  from Cons.prems qt have "handle_qr_code s now (q, t) = Inr (s, [])"
    by (auto simp: no_target_def no_reacquire_def handle_qr_code_def handle_center_def
        center_distance_def split: option.splits)
  moreover from Cons have "scan_qr_codes s now qs = Inr (s, [])"
    by (simp add: no_target_def no_reacquire_def)
  ultimately show ?case using qt by simp
qed

text \<open>
  Once the center has been overwritten in a frame without the target marker, the rest
  of the frame keeps a center set and the history empty; the center and the last
  movement time are those written for the last marker that overwrote them.
\<close>

lemma scan_after_reacquire:
  "is_center_set s \<Longrightarrow> center_pixel s = Some c0 \<Longrightarrow> position_history s = [] \<Longrightarrow>
   no_target qs \<Longrightarrow>
   \<exists>s' ev. scan_qr_codes s now qs = Inr (s', ev) \<and> is_center_set s' \<and>
     position_history s' = [] \<and>
     ((center_pixel s' = Some c0 \<and> last_movement_time s' = last_movement_time s) \<or>
      (\<exists>qt \<in> set qs. data (fst qt) = CENTER_QR_DATA \<and>
         center_pixel s' = Some (center (fst qt)) \<and> last_movement_time s' = Some (snd qt)))"
proof (induction qs arbitrary: s c0)
  case Nil
  then show ?case by simp
next
  case (Cons qt qs)
  obtain q t where qt: "qt = (q, t)" by (cases qt)
  from Cons.prems(4) qt have nt: "data q \<noteq> TARGET_QR_DATA" and rest: "no_target qs"
    by (simp_all add: no_target_def)
  show ?case
  proof (cases "data q = CENTER_QR_DATA \<and> center_distance (center q) c0 > 10")
    case True
    let ?s1 = "s\<lparr>center_pixel := Some (center q), is_center_set := True,
                 last_movement_time := Some t, position_history := []\<rparr>"
    from True Cons.prems have h: "handle_qr_code s now (q, t) = Inr (?s1, [CenterSetMsg (center q)])"
      by (simp add: handle_qr_code_def handle_center_def reacquire_def)
    have "is_center_set ?s1" "center_pixel ?s1 = Some (center q)" "position_history ?s1 = []"
      by simp_all
    from Cons.IH [OF this rest] obtain s2 ev2 where
      sc: "scan_qr_codes ?s1 now qs = Inr (s2, ev2)" and k: "is_center_set s2"
      "position_history s2 = []" and
      d: "(center_pixel s2 = Some (center q) \<and> last_movement_time s2 = last_movement_time ?s1) \<or>
        (\<exists>qt \<in> set qs. data (fst qt) = CENTER_QR_DATA \<and>
           center_pixel s2 = Some (center (fst qt)) \<and> last_movement_time s2 = Some (snd qt))"
      by blast
    from d True qt have "\<exists>qt' \<in> set (qt # qs). data (fst qt') = CENTER_QR_DATA \<and>
         center_pixel s2 = Some (center (fst qt')) \<and> last_movement_time s2 = Some (snd qt')"
      by auto
    with h sc k qt show ?thesis by simp
  next
    case False
    with Cons.prems nt have h: "handle_qr_code s now (q, t) = Inr (s, [])"
      by (auto simp: handle_qr_code_def handle_center_def)
    from Cons.IH [OF Cons.prems(1) Cons.prems(2) Cons.prems(3) rest] obtain s2 ev2 where
      sc: "scan_qr_codes s now qs = Inr (s2, ev2)" and k: "is_center_set s2"
      "position_history s2 = []" and
      d: "(center_pixel s2 = Some c0 \<and> last_movement_time s2 = last_movement_time s) \<or>
        (\<exists>qt \<in> set qs. data (fst qt) = CENTER_QR_DATA \<and>
           center_pixel s2 = Some (center (fst qt)) \<and> last_movement_time s2 = Some (snd qt))"
      by blast
    from d have "(center_pixel s2 = Some c0 \<and> last_movement_time s2 = last_movement_time s) \<or>
        (\<exists>qt' \<in> set (qt # qs). data (fst qt') = CENTER_QR_DATA \<and>
           center_pixel s2 = Some (center (fst qt')) \<and> last_movement_time s2 = Some (snd qt'))"
      by auto
    with h sc k qt show ?thesis by simp
  qed
qed

lemma scan_reacquires:
  "wf_ctx s \<Longrightarrow> no_target qs \<Longrightarrow> \<not> no_reacquire s qs \<Longrightarrow>
   \<exists>s' ev. scan_qr_codes s now qs = Inr (s', ev) \<and> is_center_set s' \<and>
     position_history s' = [] \<and>
     (\<exists>qt \<in> set qs. data (fst qt) = CENTER_QR_DATA \<and>
        center_pixel s' = Some (center (fst qt)) \<and> last_movement_time s' = Some (snd qt))"
proof (induction qs)
  case Nil
  then show ?case by (simp add: no_reacquire_def)
next
  case (Cons qt qs)
  obtain q t where qt: "qt = (q, t)" by (cases qt)
  from Cons.prems(2) qt have nt: "data q \<noteq> TARGET_QR_DATA" and rest: "no_target qs"
    by (simp_all add: no_target_def)
  show ?case
  proof (cases "no_reacquire s [qt]")
    case True
    with Cons.prems(3) have nr: "\<not> no_reacquire s qs"
      by (auto simp: no_reacquire_def)
    from True qt nt have h: "handle_qr_code s now (q, t) = Inr (s, [])"
      by (auto simp: no_reacquire_def handle_qr_code_def handle_center_def center_distance_def
          split: option.splits)
    from Cons.IH [OF Cons.prems(1) rest nr] obtain s2 ev2 where
      sc: "scan_qr_codes s now qs = Inr (s2, ev2)" and k: "is_center_set s2"
      "position_history s2 = []" and
      d: "\<exists>qt \<in> set qs. data (fst qt) = CENTER_QR_DATA \<and>
           center_pixel s2 = Some (center (fst qt)) \<and> last_movement_time s2 = Some (snd qt)"
      by blast
    from d have "\<exists>qt' \<in> set (qt # qs). data (fst qt') = CENTER_QR_DATA \<and>
           center_pixel s2 = Some (center (fst qt')) \<and> last_movement_time s2 = Some (snd qt')"
      by auto
    with h sc k qt show ?thesis by simp
  next
    case False
    let ?s1 = "s\<lparr>center_pixel := Some (center q), is_center_set := True,
                 last_movement_time := Some t, position_history := []\<rparr>"
    from False qt have c: "data q = CENTER_QR_DATA"
      by (simp add: no_reacquire_def)
    from False qt Cons.prems(1) c
    have h: "handle_qr_code s now (q, t) = Inr (?s1, [CenterSetMsg (center q)])"
      by (auto simp: no_reacquire_def wf_ctx_def handle_qr_code_def handle_center_def
          reacquire_def center_distance_def split: option.splits)
    have "is_center_set ?s1" "center_pixel ?s1 = Some (center q)" "position_history ?s1 = []"
      by simp_all
    from scan_after_reacquire [OF this rest, of now] obtain s2 ev2 where
      sc: "scan_qr_codes ?s1 now qs = Inr (s2, ev2)" and k: "is_center_set s2"
      "position_history s2 = []" and
      d: "(center_pixel s2 = Some (center q) \<and> last_movement_time s2 = last_movement_time ?s1) \<or>
        (\<exists>qt \<in> set qs. data (fst qt) = CENTER_QR_DATA \<and>
           center_pixel s2 = Some (center (fst qt)) \<and> last_movement_time s2 = Some (snd qt))"
      by blast
    from d c qt have "\<exists>qt' \<in> set (qt # qs). data (fst qt') = CENTER_QR_DATA \<and>
         center_pixel s2 = Some (center (fst qt')) \<and> last_movement_time s2 = Some (snd qt')"
      by auto
    with h sc k qt show ?thesis by simp
  qed
qed

lemma manual_no_target:
  "\<not> found_target_qr (m_detected mi) \<Longrightarrow>
     \<exists>ev go. manual_iteration s mi = Inr (s, ev, go) \<and> no_status ev"
  by (auto simp: manual_iteration_def manual_frame_def manual_key_def found_target_qr_def
      no_status_def split: option.splits)

lemma dual_key_cases:
  "\<exists>s' ev go. dual_key s inp = (s', ev, go) \<and> no_status ev \<and>
     pixels_per_mm s' = pixels_per_mm s \<and>
     (d_key inp \<noteq> 114 \<longrightarrow> s' = s) \<and>
     (d_key inp = 114 \<longrightarrow> go \<and> center_pixel s' = None \<and> \<not> is_center_set s' \<and>
        position_history s' = [] \<and> last_movement_time s' = None)"
  by (auto simp: dual_key_def no_status_def)

lemma dual_no_target_scale:
  assumes "wf_ctx s" "no_target (d_qr_codes inp)"
  shows "\<exists>s' ev go. dual_iteration s inp = Inr (s', ev, go) \<and>
           pixels_per_mm s' = pixels_per_mm s \<and> no_status ev"
proof (cases "d_ret inp")
  case False
  then show ?thesis by (auto simp: dual_iteration_def no_status_def)
next
  case True
  from scan_no_target [OF assms, of "d_current_time inp"] obtain s1 ev1 where
    sc: "scan_qr_codes s (d_current_time inp) (d_qr_codes inp) = Inr (s1, ev1)" and
    k: "pixels_per_mm s1 = pixels_per_mm s" "no_status ev1"
    by blast
  from dual_key_cases [of s1 inp] obtain s2 ev2 go where
    "dual_key s1 inp = (s2, ev2, go)" "no_status ev2" "pixels_per_mm s2 = pixels_per_mm s1"
    by blast
  with True sc k show ?thesis
    by (simp add: dual_iteration_def no_status_def)
qed

lemma dual_nothing_happens:
  assumes "no_target (d_qr_codes inp)" "no_reacquire s (d_qr_codes inp)" "d_key inp \<noteq> 114"
  shows "\<exists>ev go. dual_iteration s inp = Inr (s, ev, go) \<and> no_status ev"
proof (cases "d_ret inp")
  case False
  then show ?thesis by (auto simp: dual_iteration_def no_status_def)
next
  case True
  from scan_nothing_happens [OF assms(1) assms(2), of "d_current_time inp"]
  have sc: "scan_qr_codes s (d_current_time inp) (d_qr_codes inp) = Inr (s, [])" .
  from dual_key_cases [of s inp] assms(3) obtain ev2 go where
    "dual_key s inp = (s, ev2, go)" "no_status ev2"
    by auto
  with True sc show ?thesis
    by (simp add: dual_iteration_def)
qed

lemma dual_reacquires:
  assumes "wf_ctx s" "d_ret inp" "no_target (d_qr_codes inp)"
    "\<not> no_reacquire s (d_qr_codes inp)" "d_key inp \<noteq> 114"
  shows "\<exists>s' ev go. dual_iteration s inp = Inr (s', ev, go) \<and> is_center_set s' \<and>
     position_history s' = [] \<and>
     (\<exists>qt \<in> set (d_qr_codes inp). data (fst qt) = CENTER_QR_DATA \<and>
        center_pixel s' = Some (center (fst qt)) \<and> last_movement_time s' = Some (snd qt))"
proof -
  from scan_reacquires [OF assms(1) assms(3) assms(4), of "d_current_time inp"]
  obtain s1 ev1 where
    sc: "scan_qr_codes s (d_current_time inp) (d_qr_codes inp) = Inr (s1, ev1)" and
    k: "is_center_set s1" "position_history s1 = []"
    "\<exists>qt \<in> set (d_qr_codes inp). data (fst qt) = CENTER_QR_DATA \<and>
        center_pixel s1 = Some (center (fst qt)) \<and> last_movement_time s1 = Some (snd qt)"
    by blast
  from dual_key_cases [of s1 inp] assms(5) obtain ev2 go where
    "dual_key s1 inp = (s1, ev2, go)"
    by auto
  with assms(2) sc k show ?thesis
    by (simp add: dual_iteration_def)
qed

lemma dual_reset:
  assumes "wf_ctx s" "d_ret inp" "no_target (d_qr_codes inp)" "d_key inp = 114"
  shows "\<exists>s' ev. dual_iteration s inp = Inr (s', ev, True) \<and> center_pixel s' = None \<and>
     \<not> is_center_set s' \<and> position_history s' = [] \<and> last_movement_time s' = None"
proof -
  from scan_no_target [OF assms(1) assms(3), of "d_current_time inp"] obtain s1 ev1 where
    sc: "scan_qr_codes s (d_current_time inp) (d_qr_codes inp) = Inr (s1, ev1)"
    by blast
  with assms(2) assms(4) show ?thesis
    by (simp add: dual_iteration_def dual_key_def)
qed

text \<open>
  C7, as stated, fails in qr\_tracker.py. After a first frame that shows the target, a
  frame that shows the center marker and no target marker sets the center and empties
  the history (no center was set; the same happens when the marker has moved by more
  than 10 pixels). And key \<open>r\<close> in an iteration whose frame shows no marker at all
  clears the center and the history.
\<close>

theorem target_absent_counterexample:
  "dual_iteration initial_ctx
     \<lparr>d_ret = True, d_current_time = 1, d_qr_codes = [(target_q, 1)], d_key = 255\<rparr>
     = Inr (seen_ctx, [], True) \<and>
   no_target [(center_q, 2)] \<and>
   scan_qr_codes seen_ctx 2 [(center_q, 2)] =
     Inr (seen_ctx\<lparr>center_pixel := Some (100, 100), is_center_set := True,
            last_movement_time := Some 2, position_history := []\<rparr>,
          [CenterSetMsg (100, 100)]) \<and>
   dual_iteration seen_ctx
     \<lparr>d_ret = True, d_current_time = 2, d_qr_codes = [(center_q, 2)], d_key = 255\<rparr> =
     Inr (seen_ctx\<lparr>center_pixel := Some (100, 100), is_center_set := True,
            last_movement_time := Some 2, position_history := []\<rparr>,
          [CenterSetMsg (100, 100)], True) \<and>
   center_pixel seen_ctx = None \<and> position_history seen_ctx = [((10, 20), 1)] \<and>
   no_target [] \<and>
   dual_iteration ref_ctx \<lparr>d_ret = True, d_current_time = 2, d_qr_codes = [], d_key = 114\<rparr> =
     Inr (ref_ctx\<lparr>center_pixel := None, is_center_set := False,
            position_history := [], last_movement_time := None\<rparr>,
          [ResetMsg], True) \<and>
   center_pixel ref_ctx = Some (100, 100) \<and> position_history ref_ctx = [((10, 20), 1)]"
proof -
  have d: "data target_q \<noteq> CENTER_QR_DATA" "data center_q \<noteq> TARGET_QR_DATA"
    by (simp_all add: target_q_def center_q_def TARGET_QR_DATA_def CENTER_QR_DATA_def)
  have t: "track_target initial_ctx target_q 1 = Inr (seen_ctx, [])"
    by (simp add: track_target_def calibrate_def update_position_history_def deque_append_def
        target_q_def initial_ctx_def seen_ctx_def width_mm)
  have i: "dual_iteration initial_ctx
     \<lparr>d_ret = True, d_current_time = 1, d_qr_codes = [(target_q, 1)], d_key = 255\<rparr>
     = Inr (seen_ctx, [], True)"
    using d t by (simp add: dual_iteration_def handle_qr_code_def dual_key_def target_q_def)
  have sc: "scan_qr_codes seen_ctx 2 [(center_q, 2)] =
     Inr (seen_ctx\<lparr>center_pixel := Some (100, 100), is_center_set := True,
            last_movement_time := Some 2, position_history := []\<rparr>,
          [CenterSetMsg (100, 100)])"
    by (simp add: handle_qr_code_def handle_center_def reacquire_def center_q_def
        seen_ctx_def initial_ctx_def)
  have it: "dual_iteration seen_ctx
     \<lparr>d_ret = True, d_current_time = 2, d_qr_codes = [(center_q, 2)], d_key = 255\<rparr> =
     Inr (seen_ctx\<lparr>center_pixel := Some (100, 100), is_center_set := True,
            last_movement_time := Some 2, position_history := []\<rparr>,
          [CenterSetMsg (100, 100)], True)"
    using sc by (simp add: dual_iteration_def dual_key_def)
  have rs: "dual_iteration ref_ctx
     \<lparr>d_ret = True, d_current_time = 2, d_qr_codes = [], d_key = 114\<rparr> =
     Inr (ref_ctx\<lparr>center_pixel := None, is_center_set := False,
            position_history := [], last_movement_time := None\<rparr>,
          [ResetMsg], True)"
    by (simp add: dual_iteration_def dual_key_def)
  from d i sc it rs show ?thesis
    by (simp add: no_target_def seen_ctx_def ref_ctx_def initial_ctx_def)
qed

text \<open>
  C7, amended. An iteration whose frame shows no target marker leaves the scale as it
  was and writes no displacement or status, in both scripts. In motion\_tracker.py the
  whole iteration (frame and key) leaves every global as it was. In qr\_tracker.py the
  whole iteration leaves every global as it was when key \<open>r\<close> is not pressed and no
  center marker \<open>(cx, cy)\<close> of the frame overwrites the center, that is, a center
  \<open>(rx, ry)\<close> is set and \<open>sqrt ((cx - rx)\<^sup>2 + (cy - ry)\<^sup>2) \<le> 10\<close> for each of them. When
  key \<open>r\<close> is not pressed and some center marker of the frame does overwrite the
  center, the iteration ends with the center set to the position of a center marker
  of the frame, the history empty and the last movement time the clock value read for
  that marker. When key \<open>r\<close> is pressed, the iteration ends with no center, an empty
  history and no last movement time.
\<close>

theorem target_absent_spec:
  "((\<forall>q. m_detected mi = Some q \<longrightarrow> data q \<noteq> TARGET_QR_DATA) \<longrightarrow>
      manual_frame s mi = Inr (s, []) \<and>
      (\<exists>ev go. manual_iteration s mi = Inr (s, ev, go) \<and> no_status ev)) \<and>
   (wf_ctx s \<and> no_target (d_qr_codes inp) \<longrightarrow>
      (\<exists>s' ev go. dual_iteration s inp = Inr (s', ev, go) \<and>
         pixels_per_mm s' = pixels_per_mm s \<and> no_status ev)) \<and>
   (no_target (d_qr_codes inp) \<and> no_reacquire s (d_qr_codes inp) \<and> d_key inp \<noteq> 114 \<longrightarrow>
      (\<exists>ev go. dual_iteration s inp = Inr (s, ev, go) \<and> no_status ev)) \<and>
   (wf_ctx s \<and> d_ret inp \<and> no_target (d_qr_codes inp) \<and>
    \<not> no_reacquire s (d_qr_codes inp) \<and> d_key inp \<noteq> 114 \<longrightarrow>
      (\<exists>s' ev go. dual_iteration s inp = Inr (s', ev, go) \<and> is_center_set s' \<and>
         position_history s' = [] \<and>
         (\<exists>qt \<in> set (d_qr_codes inp). data (fst qt) = CENTER_QR_DATA \<and>
            center_pixel s' = Some (center (fst qt)) \<and>
            last_movement_time s' = Some (snd qt)))) \<and>
   (wf_ctx s \<and> d_ret inp \<and> no_target (d_qr_codes inp) \<and> d_key inp = 114 \<longrightarrow>
      (\<exists>s' ev. dual_iteration s inp = Inr (s', ev, True) \<and> center_pixel s' = None \<and>
         \<not> is_center_set s' \<and> position_history s' = [] \<and> last_movement_time s' = None))"
proof -
  have p1: "(\<forall>q. m_detected mi = Some q \<longrightarrow> data q \<noteq> TARGET_QR_DATA) \<longrightarrow>
      manual_frame s mi = Inr (s, []) \<and>
      (\<exists>ev go. manual_iteration s mi = Inr (s, ev, go) \<and> no_status ev)"
  proof
    assume a: "\<forall>q. m_detected mi = Some q \<longrightarrow> data q \<noteq> TARGET_QR_DATA"
    then have nf: "\<not> found_target_qr (m_detected mi)"
      by (simp add: found_target_qr_def split: option.splits)
    from a have "manual_frame s mi = Inr (s, [])"
      by (simp add: manual_frame_def split: option.splits)
    with manual_no_target [OF nf, of s]
    show "manual_frame s mi = Inr (s, []) \<and>
      (\<exists>ev go. manual_iteration s mi = Inr (s, ev, go) \<and> no_status ev)"
      by blast
  qed
  have p2: "wf_ctx s \<and> no_target (d_qr_codes inp) \<longrightarrow>
      (\<exists>s' ev go. dual_iteration s inp = Inr (s', ev, go) \<and>
         pixels_per_mm s' = pixels_per_mm s \<and> no_status ev)"
    using dual_no_target_scale [of s inp] by blast
  have p3: "no_target (d_qr_codes inp) \<and> no_reacquire s (d_qr_codes inp) \<and> d_key inp \<noteq> 114 \<longrightarrow>
      (\<exists>ev go. dual_iteration s inp = Inr (s, ev, go) \<and> no_status ev)"
    using dual_nothing_happens [of inp s] by blast
  have p4: "wf_ctx s \<and> d_ret inp \<and> no_target (d_qr_codes inp) \<and>
    \<not> no_reacquire s (d_qr_codes inp) \<and> d_key inp \<noteq> 114 \<longrightarrow>
      (\<exists>s' ev go. dual_iteration s inp = Inr (s', ev, go) \<and> is_center_set s' \<and>
         position_history s' = [] \<and>
         (\<exists>qt \<in> set (d_qr_codes inp). data (fst qt) = CENTER_QR_DATA \<and>
            center_pixel s' = Some (center (fst qt)) \<and>
            last_movement_time s' = Some (snd qt)))"
    using dual_reacquires [of s inp] by blast
  have p5: "wf_ctx s \<and> d_ret inp \<and> no_target (d_qr_codes inp) \<and> d_key inp = 114 \<longrightarrow>
      (\<exists>s' ev. dual_iteration s inp = Inr (s', ev, True) \<and> center_pixel s' = None \<and>
         \<not> is_center_set s' \<and> position_history s' = [] \<and> last_movement_time s' = None)"
    using dual_reset [of s inp] by blast
  from p1 p2 p3 p4 p5 show ?thesis by (intro conjI)
qed

theorem target_absent_spec_witness:
  "manual_iteration seen_ctx
     \<lparr>m_ret = True, m_current_time = 2, m_detected = Some center_q, m_key = 99, m_key_time = 2\<rparr>
     = Inr (seen_ctx, [WarningMsg], True) \<and>
   fst (projr (dual_iteration ref_ctx
     \<lparr>d_ret = True, d_current_time = 3, d_qr_codes = [(near_q, 3)], d_key = 255\<rparr>))
     = ref_ctx \<and>
   pixels_per_mm (fst (projr (dual_iteration seen_ctx
     \<lparr>d_ret = True, d_current_time = 2, d_qr_codes = [(center_q, 2)], d_key = 255\<rparr>)))
     = Some 10 \<and>
   center_pixel (fst (projr (dual_iteration seen_ctx
     \<lparr>d_ret = True, d_current_time = 2, d_qr_codes = [(center_q, 2)], d_key = 255\<rparr>)))
     = Some (100, 100) \<and>
   position_history (fst (projr (dual_iteration seen_ctx
     \<lparr>d_ret = True, d_current_time = 2, d_qr_codes = [(center_q, 2)], d_key = 255\<rparr>)))
     = [] \<and>
   center_pixel (fst (projr (dual_iteration ref_ctx
     \<lparr>d_ret = True, d_current_time = 3, d_qr_codes = [(near_q, 3)], d_key = 114\<rparr>)))
     = None \<and>
   position_history (fst (projr (dual_iteration ref_ctx
     \<lparr>d_ret = True, d_current_time = 3, d_qr_codes = [(near_q, 3)], d_key = 114\<rparr>)))
     = []"
proof -
  let ?mi = "\<lparr>m_ret = True, m_current_time = 2, m_detected = Some center_q, m_key = 99, m_key_time = 2\<rparr>"
  let ?near = "\<lparr>d_ret = True, d_current_time = 3, d_qr_codes = [(near_q, 3)], d_key = 255\<rparr>"
  let ?cen = "\<lparr>d_ret = True, d_current_time = 2, d_qr_codes = [(center_q, 2)], d_key = 255\<rparr>"
  let ?rst = "\<lparr>d_ret = True, d_current_time = 3, d_qr_codes = [(near_q, 3)], d_key = 114\<rparr>"
  have nf: "\<forall>q. m_detected ?mi = Some q \<longrightarrow> data q \<noteq> TARGET_QR_DATA"
    by (simp add: center_q_def TARGET_QR_DATA_def CENTER_QR_DATA_def)
  have wf: "wf_ctx seen_ctx" "wf_ctx ref_ctx"
    by (simp_all add: wf_ctx_def seen_ctx_def ref_ctx_def initial_ctx_def)
  have nt: "no_target (d_qr_codes ?cen)" "no_target (d_qr_codes ?near)" "no_target (d_qr_codes ?rst)"
    by (simp_all add: no_target_def center_q_def near_q_def TARGET_QR_DATA_def CENTER_QR_DATA_def)
  have nr: "no_reacquire ref_ctx (d_qr_codes ?near)"
    by (simp add: no_reacquire_def ref_ctx_def near_q_def sqrt_le_10)
  have re: "\<not> no_reacquire seen_ctx (d_qr_codes ?cen)"
    by (simp add: no_reacquire_def seen_ctx_def initial_ctx_def center_q_def)
  have p: "pixels_per_mm seen_ctx = Some 10"
    by (simp add: seen_ctx_def)
  have c: "center center_q = (100, 100)"
    by (simp add: center_q_def)
  from target_absent_spec [where mi = ?mi and s = seen_ctx and inp = ?cen] nf
  have w1: "manual_frame seen_ctx ?mi = Inr (seen_ctx, [])"
    by blast
  have w1': "manual_iteration seen_ctx ?mi = Inr (seen_ctx, [WarningMsg], True)"
    using w1 by (simp add: manual_iteration_def manual_key_def found_target_qr_def
        center_q_def TARGET_QR_DATA_def CENTER_QR_DATA_def)
  from target_absent_spec [where mi = ?mi and s = ref_ctx and inp = ?near] nt(2) nr
  have w2: "\<exists>ev go. dual_iteration ref_ctx ?near = Inr (ref_ctx, ev, go)"
    by auto
  from w2 have w2': "fst (projr (dual_iteration ref_ctx ?near)) = ref_ctx"
    by auto
  from target_absent_spec [where mi = ?mi and s = seen_ctx and inp = ?cen] wf(1) nt(1) p
  have w3: "\<exists>s' ev go. dual_iteration seen_ctx ?cen = Inr (s', ev, go) \<and>
         pixels_per_mm s' = Some 10"
    by auto
  from target_absent_spec [where mi = ?mi and s = seen_ctx and inp = ?cen] wf(1) nt(1) re c
  have w4: "\<exists>s' ev go. dual_iteration seen_ctx ?cen = Inr (s', ev, go) \<and>
         position_history s' = [] \<and> center_pixel s' = Some (100, 100)"
    by auto
  from target_absent_spec [where mi = ?mi and s = ref_ctx and inp = ?rst] wf(2) nt(3)
  have w5: "\<exists>s' ev. dual_iteration ref_ctx ?rst = Inr (s', ev, True) \<and> center_pixel s' = None \<and>
         position_history s' = []"
    by auto
  from w1' w2' w3 w4 w5 show ?thesis by auto
qed

end
